theory Spec2Isabelle
  imports Main "HOL-Library.AList" "HOL-Library.Multiset"
begin

section \<open>Go values as seen through package reflect\<close>

text \<open>
  Both comparison engines of the repository walk their inputs with package \<open>reflect\<close>.
  A \<open>reflect.Value\<close> is modelled by the datatype \<open>rvalue\<close>:
  \<^item> \<open>Invalid\<close> is the zero \<open>reflect.Value\<close> (what \<open>Elem\<close> of a nil pointer,
    \<open>FieldByName\<close> of a missing field and \<open>MapIndex\<close> of a missing key return);
  \<^item> \<open>PtrV None\<close> is a nil pointer, \<open>PtrV (Some v)\<close> a pointer to \<open>v\<close>;
  \<^item> \<open>StructV\<close> lists the fields of a struct in declaration order (every field of the
    model structs is exported, so \<open>CanInterface\<close> holds for each of them);
  \<^item> \<open>MapV\<close> is a \<open>map[string]string\<close>, the only map type of the model packages:
    \<open>None\<close> is the nil map, otherwise an association list read with \<open>map_of\<close>;
  \<^item> \<open>SGSliceV\<close> is a \<open>[]models.SecurityGroup\<close> and \<open>SliceV\<close> any other slice,
    \<open>None\<close> being the nil slice.
\<close>

record SecurityGroup =
  GroupID :: string
  GroupName :: string

datatype rvalue =
    Invalid
  | BoolV bool
  | IntV int
  | StringV string
  | PtrV "rvalue option"
  | StructV "(string \<times> rvalue) list"
  | MapV "(string \<times> string) list option"
  | SGSliceV "SecurityGroup list option"
  | SliceV "rvalue list option"

datatype kind = KInvalid | KBool | KInt | KString | KPtr | KStruct | KMap | KSlice

fun Kind :: "rvalue \<Rightarrow> kind" where
  "Kind Invalid = KInvalid"
| "Kind (BoolV b) = KBool"
| "Kind (IntV i) = KInt"
| "Kind (StringV s) = KString"
| "Kind (PtrV p) = KPtr"
| "Kind (StructV fs) = KStruct"
| "Kind (MapV m) = KMap"
| "Kind (SGSliceV s) = KSlice"
| "Kind (SliceV s) = KSlice"

definition IsValid :: "rvalue \<Rightarrow> bool" where
  "IsValid v = (v \<noteq> Invalid)"

text \<open>\<open>safeInterface\<close>: nil for the zero Value, the value itself otherwise. An
  \<open>interface{}\<close> is an \<open>rvalue option\<close>, \<open>None\<close> being the nil interface.\<close>

definition safeInterface :: "rvalue \<Rightarrow> rvalue option" where
  "safeInterface v = (if \<not> IsValid v then None else Some v)"

text \<open>\<open>if v.Kind() == reflect.Ptr { v = v.Elem() }\<close>: one level of dereferencing;
  \<open>Elem\<close> of a nil pointer is the zero Value.\<close>

definition deref :: "rvalue \<Rightarrow> rvalue" where
  "deref v = (case v of PtrV p \<Rightarrow> (case p of None \<Rightarrow> Invalid | Some x \<Rightarrow> x) | _ \<Rightarrow> v)"

definition FieldByName :: "rvalue \<Rightarrow> string \<Rightarrow> rvalue" where
  "FieldByName v name =
     (case v of
        StructV fs \<Rightarrow> (case map_of fs name of None \<Rightarrow> Invalid | Some x \<Rightarrow> x)
      | _ \<Rightarrow> Invalid)"

definition valueOfSecurityGroup :: "SecurityGroup \<Rightarrow> rvalue" where
  "valueOfSecurityGroup sg =
     StructV [(''GroupID'', StringV (GroupID sg)), (''GroupName'', StringV (GroupName sg))]"

text \<open>The elements of a slice (\<open>Index\<close>); \<open>None\<close> when the value is no slice, where
  \<open>Index\<close> panics or yields bytes that are no structs.\<close>

definition sliceElems :: "rvalue \<Rightarrow> rvalue list option" where
  "sliceElems v =
     (case v of
        SliceV s \<Rightarrow> Some (case s of None \<Rightarrow> [] | Some xs \<Rightarrow> xs)
      | SGSliceV s \<Rightarrow> Some (map valueOfSecurityGroup (case s of None \<Rightarrow> [] | Some xs \<Rightarrow> xs))
      | _ \<Rightarrow> None)"

text \<open>\<open>Len\<close> panics (\<open>None\<close>) unless the value is a slice, a map or a string.\<close>

definition Len :: "rvalue \<Rightarrow> nat option" where
  "Len v =
     (case v of
        SliceV s \<Rightarrow> Some (case s of None \<Rightarrow> 0 | Some xs \<Rightarrow> length xs)
      | SGSliceV s \<Rightarrow> Some (case s of None \<Rightarrow> 0 | Some xs \<Rightarrow> length xs)
      | MapV m \<Rightarrow> Some (case m of None \<Rightarrow> 0 | Some al \<Rightarrow> length al)
      | StringV s \<Rightarrow> Some (length s)
      | _ \<Rightarrow> None)"

text \<open>\<open>IsNil\<close> panics (\<open>None\<close>) on a value that cannot be nil and on the zero Value.\<close>

definition IsNil :: "rvalue \<Rightarrow> bool option" where
  "IsNil v =
     (case v of
        PtrV p \<Rightarrow> Some (p = None)
      | MapV m \<Rightarrow> Some (m = None)
      | SGSliceV s \<Rightarrow> Some (s = None)
      | SliceV s \<Rightarrow> Some (s = None)
      | _ \<Rightarrow> None)"

text \<open>The entries of a map value; \<open>MapKeys\<close> and \<open>MapIndex\<close> panic on anything else.\<close>

definition mapEntries :: "rvalue \<Rightarrow> (string \<times> string) list option" where
  "mapEntries v =
     (case v of MapV m \<Rightarrow> Some (case m of None \<Rightarrow> [] | Some al \<Rightarrow> al) | _ \<Rightarrow> None)"

definition MapIndex :: "(string \<times> string) list \<Rightarrow> string \<Rightarrow> rvalue" where
  "MapIndex al key = (case map_of al key of None \<Rightarrow> Invalid | Some s \<Rightarrow> StringV s)"

text \<open>
  \<open>reflect.DeepEqual\<close> on two interface values. On values of one static type that hold no
  map it is structural equality: a nil pointer equals only a nil pointer, two pointers are
  equal when their pointees are, a nil slice differs from an empty one. The engines apply
  it to scalars, dereferenced pointers, strings taken out of a map and slices of pointers.
\<close>

definition DeepEqual :: "rvalue option \<Rightarrow> rvalue option \<Rightarrow> bool" where
  "DeepEqual x y = (x = y)"

text \<open>
  Go leaves the order in which \<open>range\<close> visits a map (and \<open>MapKeys\<close> lists its keys)
  unspecified. The order chosen by the runtime is a parameter \<open>ord\<close> of every function
  that ranges over a map: it takes the keys of the map and returns them in the order of the
  visit. \<open>rangeOrder\<close> says that a choice visits every key once.
\<close>

type_synonym mapiter = "string list \<Rightarrow> string list"

definition rangeOrder :: "mapiter \<Rightarrow> bool" where
  "rangeOrder ord = (\<forall>ks. mset (ord ks) = mset ks)"

section \<open>The domain model (domain/models: \<open>Instance\<close>)\<close>

text \<open>The domain package has its own \<open>SecurityGroup\<close> with the same two fields; the record
  above stands for both.\<close>

record Instance =
  ID :: string
  Type :: string
  AMI :: string
  KeyName :: string
  Tags :: "(string \<times> string) list option"
  VPCID :: string
  SubnetID :: string
  SecurityGroups :: "SecurityGroup list option"
  PublicIPAddress :: string
  PrivateIPAddress :: string
  AssociatePublicIPAddress :: "bool option"
  PrivateDNSName :: string
  PublicDNSName :: string
  RootVolumeSize :: int
  RootVolumeType :: string
  RootVolumeIops :: int
  RootVolumeEncrypted :: "bool option"
  IAMInstanceProfile :: string
  Monitoring :: "bool option"
  AvailabilityZone :: string
  Tenancy :: string

definition ptrTo :: "('a \<Rightarrow> rvalue) \<Rightarrow> 'a option \<Rightarrow> rvalue" where
  "ptrTo f p = PtrV (map_option f p)"

definition instanceFields :: "Instance \<Rightarrow> (string \<times> rvalue) list" where
  "instanceFields i =
     [(''ID'', StringV (ID i)),
      (''Type'', StringV (Type i)),
      (''AMI'', StringV (AMI i)),
      (''KeyName'', StringV (KeyName i)),
      (''Tags'', MapV (Tags i)),
      (''VPCID'', StringV (VPCID i)),
      (''SubnetID'', StringV (SubnetID i)),
      (''SecurityGroups'', SGSliceV (SecurityGroups i)),
      (''PublicIPAddress'', StringV (PublicIPAddress i)),
      (''PrivateIPAddress'', StringV (PrivateIPAddress i)),
      (''AssociatePublicIPAddress'', ptrTo BoolV (AssociatePublicIPAddress i)),
      (''PrivateDNSName'', StringV (PrivateDNSName i)),
      (''PublicDNSName'', StringV (PublicDNSName i)),
      (''RootVolumeSize'', IntV (RootVolumeSize i)),
      (''RootVolumeType'', StringV (RootVolumeType i)),
      (''RootVolumeIops'', IntV (RootVolumeIops i)),
      (''RootVolumeEncrypted'', ptrTo BoolV (RootVolumeEncrypted i)),
      (''IAMInstanceProfile'', StringV (IAMInstanceProfile i)),
      (''Monitoring'', ptrTo BoolV (Monitoring i)),
      (''AvailabilityZone'', StringV (AvailabilityZone i)),
      (''Tenancy'', StringV (Tenancy i))]"

definition valueOfInstance :: "Instance \<Rightarrow> rvalue" where
  "valueOfInstance i = StructV (instanceFields i)"

text \<open>\<open>NewInstance(id, instanceType, ami)\<close>: the other fields are zero, \<open>Tags\<close> is an
  empty map.\<close>

definition NewInstance :: "string \<Rightarrow> string \<Rightarrow> string \<Rightarrow> Instance" where
  "NewInstance ident instanceType ami =
     \<lparr>ID = ident, Type = instanceType, AMI = ami, KeyName = [], Tags = Some [],
      VPCID = [], SubnetID = [], SecurityGroups = None, PublicIPAddress = [],
      PrivateIPAddress = [], AssociatePublicIPAddress = None, PrivateDNSName = [],
      PublicDNSName = [], RootVolumeSize = 0, RootVolumeType = [], RootVolumeIops = 0,
      RootVolumeEncrypted = None, IAMInstanceProfile = [], Monitoring = None,
      AvailabilityZone = [], Tenancy = []\<rparr>"

section \<open>The model structs (internal/models/instance.go)\<close>

record CreditSpecification =
  CPUCredits :: string

record HibernationOptions =
  Configured :: bool

record EnclaveOptions =
  Enabled :: bool

record MetadataOptions =
  HTTPEndpoint :: string
  HTTPTokens :: string
  HTTPPutResponseHopLimit :: "int option"
  InstanceMetadataTags :: string

record LaunchTemplateSpecification =
  ID :: string
  Name :: string
  Version :: string

record Timeouts =
  Create :: string
  Update :: string
  Delete :: string

record EBSBlockDevice =
  DeviceName :: string
  SnapshotID :: string
  VolumeType :: string
  VolumeSize :: "int option"
  Iops :: "int option"
  DeleteOnTermination :: "bool option"
  Encrypted :: "bool option"
  KMSKeyID :: string
  Throughput :: "int option"

record EphemeralBlockDevice =
  DeviceName :: string
  NoDevice :: "bool option"
  VirtualName :: string

record NetworkInterface =
  DeviceIndex :: int
  NetworkInterfaceID :: string
  DeleteOnTermination :: "bool option"
  NetworkCardIndex :: int

record InstanceConfig =
  InstanceID :: string
  InstanceType :: string
  AMI :: string
  KeyName :: string
  Tags :: "(string \<times> string) list option"
  VPCID :: string
  SubnetID :: string
  SecurityGroups :: "SecurityGroup list option"
  PublicIPAddress :: string
  PrivateIPAddress :: string
  AssociatePublicIPAddress :: "bool option"
  SourceDestCheck :: "bool option"
  PrivateDNSName :: string
  PublicDNSName :: string
  RootVolumeSize :: int
  RootVolumeType :: string
  RootVolumeIops :: int
  RootVolumeThroughput :: int
  RootVolumeEncrypted :: "bool option"
  RootVolumeKMSKeyID :: string
  EBSOptimized :: "bool option"
  IAMInstanceProfile :: string
  Monitoring :: "bool option"
  AvailabilityZone :: string
  Tenancy :: string
  HostID :: string
  PlacementGroup :: string
  CPUCoreCount :: "int option"
  CPUThreadsPerCore :: "int option"
  CreditSpecification :: "CreditSpecification option"
  Hibernation :: "HibernationOptions option"
  EnclaveOptions :: "EnclaveOptions option"
  UserData :: string
  MetadataOptions :: "MetadataOptions option"
  DisableAPITermination :: "bool option"
  InstanceInitiatedShutdownBehavior :: string
  LaunchTemplate :: "LaunchTemplateSpecification option"
  Timeouts :: "Timeouts option"
  EBSBlockDevices :: "EBSBlockDevice option list option"
  EphemeralBlockDevices :: "EphemeralBlockDevice option list option"
  NetworkInterfaces :: "NetworkInterface option list option"

text \<open>\<open>reflect.ValueOf\<close> on each of these types. A pointer field is an \<open>option\<close>.\<close>

definition ptrSlice :: "('a \<Rightarrow> rvalue) \<Rightarrow> 'a option list option \<Rightarrow> rvalue" where
  "ptrSlice f s = SliceV (map_option (map (ptrTo f)) s)"

definition valueOfCreditSpecification :: "CreditSpecification \<Rightarrow> rvalue" where
  "valueOfCreditSpecification c = StructV [(''CPUCredits'', StringV (CPUCredits c))]"

definition valueOfHibernationOptions :: "HibernationOptions \<Rightarrow> rvalue" where
  "valueOfHibernationOptions h = StructV [(''Configured'', BoolV (Configured h))]"

definition valueOfEnclaveOptions :: "EnclaveOptions \<Rightarrow> rvalue" where
  "valueOfEnclaveOptions e = StructV [(''Enabled'', BoolV (Enabled e))]"

definition valueOfMetadataOptions :: "MetadataOptions \<Rightarrow> rvalue" where
  "valueOfMetadataOptions m = StructV
     [(''HTTPEndpoint'', StringV (HTTPEndpoint m)),
      (''HTTPTokens'', StringV (HTTPTokens m)),
      (''HTTPPutResponseHopLimit'', ptrTo IntV (HTTPPutResponseHopLimit m)),
      (''InstanceMetadataTags'', StringV (InstanceMetadataTags m))]"

definition valueOfLaunchTemplateSpecification :: "LaunchTemplateSpecification \<Rightarrow> rvalue" where
  "valueOfLaunchTemplateSpecification l = StructV
     [(''ID'', StringV (ID l)), (''Name'', StringV (Name l)), (''Version'', StringV (Version l))]"

definition valueOfTimeouts :: "Timeouts \<Rightarrow> rvalue" where
  "valueOfTimeouts t = StructV
     [(''Create'', StringV (Create t)), (''Update'', StringV (Update t)),
      (''Delete'', StringV (Delete t))]"

definition valueOfEBSBlockDevice :: "EBSBlockDevice \<Rightarrow> rvalue" where
  "valueOfEBSBlockDevice b = StructV
     [(''DeviceName'', StringV (EBSBlockDevice.DeviceName b)),
      (''SnapshotID'', StringV (SnapshotID b)),
      (''VolumeType'', StringV (VolumeType b)),
      (''VolumeSize'', ptrTo IntV (VolumeSize b)),
      (''Iops'', ptrTo IntV (Iops b)),
      (''DeleteOnTermination'', ptrTo BoolV (EBSBlockDevice.DeleteOnTermination b)),
      (''Encrypted'', ptrTo BoolV (Encrypted b)),
      (''KMSKeyID'', StringV (KMSKeyID b)),
      (''Throughput'', ptrTo IntV (Throughput b))]"

definition valueOfEphemeralBlockDevice :: "EphemeralBlockDevice \<Rightarrow> rvalue" where
  "valueOfEphemeralBlockDevice b = StructV
     [(''DeviceName'', StringV (EphemeralBlockDevice.DeviceName b)),
      (''NoDevice'', ptrTo BoolV (NoDevice b)),
      (''VirtualName'', StringV (VirtualName b))]"

definition valueOfNetworkInterface :: "NetworkInterface \<Rightarrow> rvalue" where
  "valueOfNetworkInterface n = StructV
     [(''DeviceIndex'', IntV (DeviceIndex n)),
      (''NetworkInterfaceID'', StringV (NetworkInterfaceID n)),
      (''DeleteOnTermination'', ptrTo BoolV (NetworkInterface.DeleteOnTermination n)),
      (''NetworkCardIndex'', IntV (NetworkCardIndex n))]"

definition configFields :: "InstanceConfig \<Rightarrow> (string \<times> rvalue) list" where
  "configFields c =
     [(''InstanceID'', StringV (InstanceID c)),
      (''InstanceType'', StringV (InstanceType c)),
      (''AMI'', StringV (AMI c)),
      (''KeyName'', StringV (KeyName c)),
      (''Tags'', MapV (Tags c)),
      (''VPCID'', StringV (VPCID c)),
      (''SubnetID'', StringV (SubnetID c)),
      (''SecurityGroups'', SGSliceV (SecurityGroups c)),
      (''PublicIPAddress'', StringV (PublicIPAddress c)),
      (''PrivateIPAddress'', StringV (PrivateIPAddress c)),
      (''AssociatePublicIPAddress'', ptrTo BoolV (AssociatePublicIPAddress c)),
      (''SourceDestCheck'', ptrTo BoolV (SourceDestCheck c)),
      (''PrivateDNSName'', StringV (PrivateDNSName c)),
      (''PublicDNSName'', StringV (PublicDNSName c)),
      (''RootVolumeSize'', IntV (RootVolumeSize c)),
      (''RootVolumeType'', StringV (RootVolumeType c)),
      (''RootVolumeIops'', IntV (RootVolumeIops c)),
      (''RootVolumeThroughput'', IntV (RootVolumeThroughput c)),
      (''RootVolumeEncrypted'', ptrTo BoolV (RootVolumeEncrypted c)),
      (''RootVolumeKMSKeyID'', StringV (RootVolumeKMSKeyID c)),
      (''EBSOptimized'', ptrTo BoolV (EBSOptimized c)),
      (''IAMInstanceProfile'', StringV (IAMInstanceProfile c)),
      (''Monitoring'', ptrTo BoolV (Monitoring c)),
      (''AvailabilityZone'', StringV (AvailabilityZone c)),
      (''Tenancy'', StringV (Tenancy c)),
      (''HostID'', StringV (HostID c)),
      (''PlacementGroup'', StringV (PlacementGroup c)),
      (''CPUCoreCount'', ptrTo IntV (CPUCoreCount c)),
      (''CPUThreadsPerCore'', ptrTo IntV (CPUThreadsPerCore c)),
      (''CreditSpecification'', ptrTo valueOfCreditSpecification (CreditSpecification c)),
      (''Hibernation'', ptrTo valueOfHibernationOptions (Hibernation c)),
      (''EnclaveOptions'', ptrTo valueOfEnclaveOptions (EnclaveOptions c)),
      (''UserData'', StringV (UserData c)),
      (''MetadataOptions'', ptrTo valueOfMetadataOptions (MetadataOptions c)),
      (''DisableAPITermination'', ptrTo BoolV (DisableAPITermination c)),
      (''InstanceInitiatedShutdownBehavior'', StringV (InstanceInitiatedShutdownBehavior c)),
      (''LaunchTemplate'', ptrTo valueOfLaunchTemplateSpecification (LaunchTemplate c)),
      (''Timeouts'', ptrTo valueOfTimeouts (Timeouts c)),
      (''EBSBlockDevices'', ptrSlice valueOfEBSBlockDevice (EBSBlockDevices c)),
      (''EphemeralBlockDevices'', ptrSlice valueOfEphemeralBlockDevice (EphemeralBlockDevices c)),
      (''NetworkInterfaces'', ptrSlice valueOfNetworkInterface (NetworkInterfaces c))]"

definition valueOfInstanceConfig :: "InstanceConfig \<Rightarrow> rvalue" where
  "valueOfInstanceConfig c = StructV (configFields c)"

text \<open>The zero value \<open>models.InstanceConfig{}\<close>.\<close>

definition zeroInstanceConfig :: InstanceConfig where
  "zeroInstanceConfig =
     \<lparr>InstanceID = [], InstanceType = [], AMI = [], KeyName = [], Tags = None,
      VPCID = [], SubnetID = [], SecurityGroups = None, PublicIPAddress = [],
      PrivateIPAddress = [], AssociatePublicIPAddress = None, SourceDestCheck = None,
      PrivateDNSName = [], PublicDNSName = [], RootVolumeSize = 0, RootVolumeType = [],
      RootVolumeIops = 0, RootVolumeThroughput = 0, RootVolumeEncrypted = None,
      RootVolumeKMSKeyID = [], EBSOptimized = None, IAMInstanceProfile = [],
      Monitoring = None, AvailabilityZone = [], Tenancy = [], HostID = [],
      PlacementGroup = [], CPUCoreCount = None, CPUThreadsPerCore = None,
      CreditSpecification = None, Hibernation = None, EnclaveOptions = None,
      UserData = [], MetadataOptions = None, DisableAPITermination = None,
      InstanceInitiatedShutdownBehavior = [], LaunchTemplate = None, Timeouts = None,
      EBSBlockDevices = None, EphemeralBlockDevices = None, NetworkInterfaces = None\<rparr>"

section \<open>Drifts and reports\<close>

text \<open>
  Package \<open>detector\<close> and package \<open>domain/models\<close> each declare \<open>DriftType\<close>,
  \<open>Drift\<close> and \<open>DriftReport\<close> with the same fields; one record stands for both.
  A description built by \<open>fmt.Sprintf\<close> is kept as the format with its arguments.
\<close>

datatype DriftType = DriftTypeAdded | DriftTypeRemoved | DriftTypeModified

datatype description = Sprintf string "rvalue option list"

record Drift =
  Type :: DriftType
  Path :: string
  Actual :: "rvalue option"
  Expected :: "rvalue option"
  Description :: description

record DriftReport =
  InstanceID :: string
  HasDrift :: bool
  Drifts :: "Drift list"

definition NewDrift ::
  "DriftType \<Rightarrow> string \<Rightarrow> rvalue option \<Rightarrow> rvalue option \<Rightarrow> string \<Rightarrow> Drift" where
  "NewDrift driftType path actual expected description =
     \<lparr>Type = driftType, Path = path, Actual = actual, Expected = expected,
      Description = Sprintf description []\<rparr>"

definition NewDriftReport :: "string \<Rightarrow> DriftReport" where
  "NewDriftReport instanceID = \<lparr>InstanceID = instanceID, HasDrift = False, Drifts = []\<rparr>"

definition AddDrift :: "DriftReport \<Rightarrow> Drift \<Rightarrow> DriftReport" where
  "AddDrift r drift = r\<lparr>Drifts := Drifts r @ [drift], HasDrift := True\<rparr>"

text \<open>
  The comparison functions only ever append to \<open>report.Drifts\<close>. Each is modelled by the
  list of drifts it appends, in order; \<open>None\<close> is a panic, which nothing recovers.
  \<open>collect\<close> runs the iterations of a loop one after the other.
\<close>

fun collect :: "Drift list option list \<Rightarrow> Drift list option" where
  "collect [] = Some []"
| "collect (x # xs) =
     (case x of
        None \<Rightarrow> None
      | Some ds \<Rightarrow> (case collect xs of None \<Rightarrow> None | Some rest \<Rightarrow> Some (ds @ rest)))"

section \<open>Package detector: \<open>Detector\<close>\<close>

record Detector =
  ignoredFields :: "string \<rightharpoonup> bool"

definition NewDetector :: Detector where
  "NewDetector = \<lparr>ignoredFields = Map.empty\<rparr>"

text \<open>\<open>d.ignoredFields[fieldPath]\<close>: a missing key reads as false.\<close>

definition ignored :: "Detector \<Rightarrow> string \<Rightarrow> bool" where
  "ignored d fieldPath = (case ignoredFields d fieldPath of None \<Rightarrow> False | Some b \<Rightarrow> b)"

definition fieldPath :: "string \<Rightarrow> string \<Rightarrow> string" where
  "fieldPath prefix fieldName = (if prefix \<noteq> [] then prefix @ ''.'' @ fieldName else fieldName)"

definition keyPath :: "string \<Rightarrow> string \<Rightarrow> string" where
  "keyPath prefix key = prefix @ ''['' @ key @ '']''"

subsection \<open>\<open>compareMaps\<close>\<close>

definition tagsExpectedLoop :: "string \<Rightarrow> (string \<times> string) list \<Rightarrow> (string \<times> string) list \<Rightarrow> string \<Rightarrow> Drift list" where
  "tagsExpectedLoop prefix actualMap expectedMap key =
     (case map_of expectedMap key of
        None \<Rightarrow> []
      | Some expectedValue \<Rightarrow>
          (case map_of actualMap key of
             Some actualValue \<Rightarrow>
               (if actualValue \<noteq> expectedValue then
                  [\<lparr>Type = DriftTypeModified, Path = keyPath prefix key,
                    Actual = Some (StringV actualValue), Expected = Some (StringV expectedValue),
                    Description = Sprintf ''Tag %s has changed. Actual: %v, Expected: %v''
                      [Some (StringV key), Some (StringV actualValue), Some (StringV expectedValue)]\<rparr>]
                else [])
           | None \<Rightarrow>
               [\<lparr>Type = DriftTypeRemoved, Path = keyPath prefix key,
                 Actual = None, Expected = Some (StringV expectedValue),
                 Description = Sprintf ''Tag %s is present in expected but missing in actual''
                   [Some (StringV key)]\<rparr>]))"

definition tagsActualLoop :: "string \<Rightarrow> (string \<times> string) list \<Rightarrow> (string \<times> string) list \<Rightarrow> string \<Rightarrow> Drift list" where
  "tagsActualLoop prefix actualMap expectedMap key =
     (case map_of actualMap key of
        None \<Rightarrow> []
      | Some actualValue \<Rightarrow>
          (case map_of expectedMap key of
             Some v \<Rightarrow> []
           | None \<Rightarrow>
               [\<lparr>Type = DriftTypeAdded, Path = keyPath prefix key,
                 Actual = Some (StringV actualValue), Expected = None,
                 Description = Sprintf ''Tag %s is present in actual but missing in expected''
                   [Some (StringV key)]\<rparr>]))"

text \<open>The first loop of the generic branch (keys of \<open>expected\<close>) and the second
  (keys of \<open>actual\<close>); paths are \<open>prefix.key\<close> here.\<close>

definition mapExpectedLoop :: "string \<Rightarrow> (string \<times> string) list \<Rightarrow> (string \<times> string) list \<Rightarrow> string \<Rightarrow> Drift list" where
  "mapExpectedLoop prefix actualMap expectedMap keyStr =
     (let actualValue = MapIndex actualMap keyStr; expectedValue = MapIndex expectedMap keyStr in
      if \<not> IsValid actualValue then
        [\<lparr>Type = DriftTypeRemoved, Path = prefix @ ''.'' @ keyStr,
          Actual = None, Expected = safeInterface expectedValue,
          Description = Sprintf ''Key %s is present in expected but missing in actual''
            [Some (StringV keyStr)]\<rparr>]
      else if \<not> DeepEqual (safeInterface actualValue) (safeInterface expectedValue) then
        [\<lparr>Type = DriftTypeModified, Path = prefix @ ''.'' @ keyStr,
          Actual = safeInterface actualValue, Expected = safeInterface expectedValue,
          Description = Sprintf ''Value for key %s has changed. Actual: %v, Expected: %v''
            [Some (StringV keyStr), safeInterface actualValue, safeInterface expectedValue]\<rparr>]
      else [])"

definition mapActualLoop :: "string \<Rightarrow> (string \<times> string) list \<Rightarrow> (string \<times> string) list \<Rightarrow> string \<Rightarrow> Drift list" where
  "mapActualLoop prefix actualMap expectedMap keyStr =
     (if \<not> IsValid (MapIndex expectedMap keyStr) then
        [\<lparr>Type = DriftTypeAdded, Path = prefix @ ''.'' @ keyStr,
          Actual = safeInterface (MapIndex actualMap keyStr), Expected = None,
          Description = Sprintf ''Key %s is present in actual but missing in expected''
            [Some (StringV keyStr)]\<rparr>]
      else [])"

text \<open>
  \<open>v.Interface().(map[string]string)\<close>: the map and \<open>ok\<close>; the zero map and false when
  the value is no map. \<open>Interface\<close> panics on the zero Value, which the caller checks.
\<close>

definition assertMap :: "rvalue \<Rightarrow> (string \<times> string) list \<times> bool" where
  "assertMap v = (case mapEntries v of None \<Rightarrow> ([], False) | Some al \<Rightarrow> (al, True))"

definition compareMaps :: "mapiter \<Rightarrow> string \<Rightarrow> rvalue \<Rightarrow> rvalue \<Rightarrow> Drift list option" where
  "compareMaps ord prefix actual expected =
     (if prefix = ''Tags'' then
        (if \<not> IsValid actual \<or> \<not> IsValid expected then None
         else
           let (actualMap, actualOk) = assertMap actual;
               (expectedMap, expectedOk) = assertMap expected
           in if \<not> actualOk \<and> expectedOk then
                Some [\<lparr>Type = DriftTypeRemoved, Path = prefix,
                        Actual = None, Expected = Some expected,
                        Description = Sprintf ''Tags are present in expected but missing in actual'' []\<rparr>]
              else if actualOk \<and> \<not> expectedOk then
                Some [\<lparr>Type = DriftTypeAdded, Path = prefix,
                        Actual = Some actual, Expected = None,
                        Description = Sprintf ''Tags are present in actual but missing in expected'' []\<rparr>]
              else
                Some (concat (map (tagsExpectedLoop prefix actualMap expectedMap)
                                (ord (map fst expectedMap)))
                      @ concat (map (tagsActualLoop prefix actualMap expectedMap)
                                  (ord (map fst actualMap)))))
      else
        (case IsNil actual of
           None \<Rightarrow> None
         | Some True \<Rightarrow>
             Some [\<lparr>Type = DriftTypeRemoved, Path = prefix,
                     Actual = None, Expected = safeInterface expected,
                     Description = Sprintf ''Map %s is present in expected but missing in actual''
                       [Some (StringV prefix)]\<rparr>]
         | Some False \<Rightarrow>
             (case IsNil expected of
                None \<Rightarrow> None
              | Some True \<Rightarrow>
                  Some [\<lparr>Type = DriftTypeAdded, Path = prefix,
                          Actual = safeInterface actual, Expected = None,
                          Description = Sprintf ''Map %s is present in actual but missing in expected''
                            [Some (StringV prefix)]\<rparr>]
              | Some False \<Rightarrow>
                  (case (mapEntries actual, mapEntries expected) of
                     (Some actualMap, Some expectedMap) \<Rightarrow>
                       Some (concat (map (mapExpectedLoop prefix actualMap expectedMap)
                                       (ord (map fst expectedMap)))
                             @ concat (map (mapActualLoop prefix actualMap expectedMap)
                                         (ord (map fst actualMap))))
                   | _ \<Rightarrow> None))))"

subsection \<open>\<open>compareSlices\<close>\<close>

text \<open>\<open>actualMap[sg.GroupID] = sg\<close> for every element in turn: a later element with the
  same GroupID replaces the earlier one.\<close>

definition sgIndex :: "SecurityGroup list \<Rightarrow> (string \<times> SecurityGroup) list" where
  "sgIndex sgs = foldl (\<lambda>m sg. AList.update (GroupID sg) sg m) [] sgs"

definition sgExpectedLoop :: "string \<Rightarrow> (string \<times> SecurityGroup) list \<Rightarrow> (string \<times> SecurityGroup) list \<Rightarrow> string \<Rightarrow> Drift list" where
  "sgExpectedLoop prefix actualMap expectedMap ident =
     (case map_of expectedMap ident of
        None \<Rightarrow> []
      | Some expectedSG \<Rightarrow>
          (case map_of actualMap ident of
             Some actualSG \<Rightarrow>
               (if GroupName actualSG \<noteq> GroupName expectedSG then
                  [\<lparr>Type = DriftTypeModified, Path = keyPath prefix ident @ ''.GroupName'',
                    Actual = Some (StringV (GroupName actualSG)),
                    Expected = Some (StringV (GroupName expectedSG)),
                    Description = Sprintf ''Security group %s name has changed. Actual: %s, Expected: %s''
                      [Some (StringV ident), Some (StringV (GroupName actualSG)),
                       Some (StringV (GroupName expectedSG))]\<rparr>]
                else [])
           | None \<Rightarrow>
               [\<lparr>Type = DriftTypeRemoved, Path = keyPath prefix ident,
                 Actual = None, Expected = Some (valueOfSecurityGroup expectedSG),
                 Description = Sprintf ''Security group %s is present in expected but missing in actual''
                   [Some (StringV ident)]\<rparr>]))"

definition sgActualLoop :: "string \<Rightarrow> (string \<times> SecurityGroup) list \<Rightarrow> (string \<times> SecurityGroup) list \<Rightarrow> string \<Rightarrow> Drift list" where
  "sgActualLoop prefix actualMap expectedMap ident =
     (case map_of actualMap ident of
        None \<Rightarrow> []
      | Some actualSG \<Rightarrow>
          (case map_of expectedMap ident of
             Some v \<Rightarrow> []
           | None \<Rightarrow>
               [\<lparr>Type = DriftTypeAdded, Path = keyPath prefix ident,
                 Actual = Some (valueOfSecurityGroup actualSG), Expected = None,
                 Description = Sprintf ''Security group %s is present in actual but missing in expected''
                   [Some (StringV ident)]\<rparr>]))"

text \<open>\<open>v.Interface().([]models.SecurityGroup)\<close>: the slice and \<open>ok\<close>.\<close>

definition assertSGs :: "rvalue \<Rightarrow> SecurityGroup list \<times> bool" where
  "assertSGs v =
     (case v of
        SGSliceV s \<Rightarrow> (case s of None \<Rightarrow> ([], True) | Some xs \<Rightarrow> (xs, True))
      | _ \<Rightarrow> ([], False))"

text \<open>The branch of \<open>compareSlices\<close> for the prefix \<open>SecurityGroups\<close>.\<close>

definition compareSecurityGroups :: "mapiter \<Rightarrow> string \<Rightarrow> rvalue \<Rightarrow> rvalue \<Rightarrow> Drift list option" where
  "compareSecurityGroups ord prefix actual expected =
     (if \<not> IsValid actual \<or> \<not> IsValid expected then None
      else
        let (actualSGs, actualOk) = assertSGs actual;
            (expectedSGs, expectedOk) = assertSGs expected
        in if \<not> actualOk \<and> expectedOk then
             Some [\<lparr>Type = DriftTypeRemoved, Path = prefix,
                     Actual = None, Expected = Some expected,
                     Description = Sprintf ''Security groups are present in expected but missing in actual'' []\<rparr>]
           else if actualOk \<and> \<not> expectedOk then
             Some [\<lparr>Type = DriftTypeAdded, Path = prefix,
                     Actual = Some actual, Expected = None,
                     Description = Sprintf ''Security groups are present in actual but missing in expected'' []\<rparr>]
           else
             let actualMap = sgIndex actualSGs; expectedMap = sgIndex expectedSGs
             in Some (concat (map (sgExpectedLoop prefix actualMap expectedMap)
                                (ord (map fst expectedMap)))
                      @ concat (map (sgActualLoop prefix actualMap expectedMap)
                                  (ord (map fst actualMap)))))"

text \<open>The last step of \<open>compareSlices\<close>, for slices whose elements are no structs.\<close>

definition compareSimpleSlices :: "string \<Rightarrow> rvalue \<Rightarrow> rvalue \<Rightarrow> Drift list" where
  "compareSimpleSlices prefix actual expected =
     (if \<not> DeepEqual (Some actual) (Some expected) then
        [\<lparr>Type = DriftTypeModified, Path = prefix,
          Actual = Some actual, Expected = Some expected,
          Description = Sprintf ''Slice %s has different values. Actual: %v, Expected: %v''
            [Some (StringV prefix), Some actual, Some expected]\<rparr>]
      else [])"

text \<open>The two indexing loops of \<open>compareStructSlices\<close>: an element is dereferenced,
  \<open>NumField\<close> panics unless it is a struct, and it is stored under its first field when that
  field is a string.\<close>

fun indexItems :: "(string \<times> rvalue) list \<Rightarrow> rvalue list \<Rightarrow> (string \<times> rvalue) list option" where
  "indexItems m [] = Some m"
| "indexItems m (x # xs) =
     (case deref x of
        StructV fs \<Rightarrow>
          (case fs of
             [] \<Rightarrow> indexItems m xs
           | idField # rest \<Rightarrow>
               (case snd idField of
                  StringV ident \<Rightarrow> indexItems (AList.update ident (deref x) m) xs
                | _ \<Rightarrow> indexItems m xs))
      | _ \<Rightarrow> None)"

definition itemRemoved :: "string \<Rightarrow> string \<Rightarrow> rvalue \<Rightarrow> Drift" where
  "itemRemoved prefix ident expectedItem =
     \<lparr>Type = DriftTypeRemoved, Path = keyPath prefix ident,
      Actual = None, Expected = Some expectedItem,
      Description = Sprintf ''Item with ID %s is present in expected but missing in actual''
        [Some (StringV ident)]\<rparr>"

definition itemsActualLoop :: "string \<Rightarrow> (string \<times> rvalue) list \<Rightarrow> (string \<times> rvalue) list \<Rightarrow> string \<Rightarrow> Drift list" where
  "itemsActualLoop prefix actualMap expectedMap ident =
     (case map_of actualMap ident of
        None \<Rightarrow> []
      | Some actualItem \<Rightarrow>
          (case map_of expectedMap ident of
             Some v \<Rightarrow> []
           | None \<Rightarrow>
               [\<lparr>Type = DriftTypeAdded, Path = keyPath prefix ident,
                 Actual = Some actualItem, Expected = None,
                 Description = Sprintf ''Item with ID %s is present in actual but missing in expected''
                   [Some (StringV ident)]\<rparr>]))"

subsection \<open>\<open>compareStruct\<close>\<close>

definition compareDefault :: "string \<Rightarrow> rvalue \<Rightarrow> rvalue \<Rightarrow> Drift list" where
  "compareDefault prefix actual expected =
     (let actualVal = safeInterface actual; expectedVal = safeInterface expected in
      if \<not> DeepEqual actualVal expectedVal then
        [\<lparr>Type = DriftTypeModified, Path = prefix,
          Actual = actualVal, Expected = expectedVal,
          Description = Sprintf ''Field %s has different values. Actual: %v, Expected: %v''
            [Some (StringV prefix), actualVal, expectedVal]\<rparr>]
      else [])"

text \<open>The drifts that \<open>compareStruct\<close> and the generic part of \<open>compareSlices\<close>
  append when one side is missing or empty.\<close>

definition fieldRemoved :: "string \<Rightarrow> rvalue \<Rightarrow> Drift" where
  "fieldRemoved prefix expected =
     \<lparr>Type = DriftTypeRemoved, Path = prefix,
      Actual = None, Expected = safeInterface expected,
      Description = Sprintf ''Field %s is present in expected but missing in actual''
        [Some (StringV prefix)]\<rparr>"

definition fieldAdded :: "string \<Rightarrow> rvalue \<Rightarrow> Drift" where
  "fieldAdded prefix actual =
     \<lparr>Type = DriftTypeAdded, Path = prefix,
      Actual = safeInterface actual, Expected = None,
      Description = Sprintf ''Field %s is present in actual but missing in expected''
        [Some (StringV prefix)]\<rparr>"

definition sliceRemoved :: "string \<Rightarrow> rvalue \<Rightarrow> Drift" where
  "sliceRemoved prefix expected =
     \<lparr>Type = DriftTypeRemoved, Path = prefix,
      Actual = None, Expected = safeInterface expected,
      Description = Sprintf ''Slice %s is present in expected but empty in actual''
        [Some (StringV prefix)]\<rparr>"

definition sliceAdded :: "string \<Rightarrow> rvalue \<Rightarrow> Drift" where
  "sliceAdded prefix actual =
     \<lparr>Type = DriftTypeAdded, Path = prefix,
      Actual = safeInterface actual, Expected = None,
      Description = Sprintf ''Slice %s is present in actual but empty in expected''
        [Some (StringV prefix)]\<rparr>"

text \<open>The field of \<open>expected\<close> that a field of \<open>actual\<close> is compared with:
  \<open>expected.FieldByName(fieldName)\<close> when \<open>expected\<close> is a valid struct, the zero
  Value otherwise.\<close>

definition expectedField :: "rvalue \<Rightarrow> string \<Rightarrow> rvalue" where
  "expectedField expected fieldName =
     (if IsValid expected \<and> Kind expected = KStruct then FieldByName expected fieldName
      else Invalid)"

text \<open>A measure for the recursion: the comparison descends into the fields of a struct,
  behind a pointer and into the elements of a slice of \<open>actual\<close>.\<close>

fun rsize :: "rvalue \<Rightarrow> nat" where
  "rsize (PtrV p) = Suc (case p of None \<Rightarrow> 0 | Some v \<Rightarrow> rsize v)"
| "rsize (StructV fs) = Suc (sum_list (map (\<lambda>f. rsize (snd f)) fs))"
| "rsize (SliceV s) = Suc (case s of None \<Rightarrow> 0 | Some xs \<Rightarrow> sum_list (map rsize xs))"
| "rsize (SGSliceV s) = 4"
| "rsize v = 1"

lemma rsize_deref: "rsize (deref v) \<le> rsize v"
  by (cases v) (auto simp: deref_def split: option.splits)

lemma rsize_field: "f \<in> set fs \<Longrightarrow> rsize (snd f) < rsize (StructV fs)"
proof -
  assume "f \<in> set fs"
  then have "rsize (snd f) \<in> set (map (\<lambda>f. rsize (snd f)) fs)" by force
  then have "rsize (snd f) \<le> sum_list (map (\<lambda>f. rsize (snd f)) fs)"
    by (simp add: member_le_sum_list)
  then show ?thesis by simp
qed

lemma rsize_elem: "sliceElems v = Some xs \<Longrightarrow> x \<in> set xs \<Longrightarrow> rsize x < rsize v"
proof (cases v)
  case (SliceV s)
  assume a: "sliceElems v = Some xs" "x \<in> set xs"
  with SliceV obtain ys where s: "s = Some ys" "xs = ys"
    by (cases s) (auto simp: sliceElems_def)
  from a s have "rsize x \<in> set (map rsize ys)" by simp
  then have "rsize x \<le> sum_list (map rsize ys)" by (simp add: member_le_sum_list)
  with SliceV s show ?thesis by simp
next
  case (SGSliceV s)
  assume "sliceElems v = Some xs" "x \<in> set xs"
  with SGSliceV show ?thesis
    by (auto simp: sliceElems_def valueOfSecurityGroup_def split: option.splits)
qed (auto simp: sliceElems_def)

lemma set_update_cases: "(k, v) \<in> set (AList.update a b al) \<Longrightarrow> (k, v) = (a, b) \<or> (k, v) \<in> set al"
  by (induction al) (auto split: if_splits)

lemma indexItems_mem:
  "indexItems m xs = Some m' \<Longrightarrow> (k, v) \<in> set m' \<Longrightarrow> (k, v) \<in> set m \<or> (\<exists>x\<in>set xs. v = deref x)"
proof (induction xs arbitrary: m)
  case Nil
  then show ?case by simp
next
  case (Cons x xs)
  show ?case
  proof (cases "deref x")
    case (StructV fs)
    show ?thesis
    proof (cases fs)
      case Nil
      with Cons StructV show ?thesis by auto
    next
      case (Cons f rest)
      show ?thesis
      proof (cases "snd f")
        case (StringV ident)
        with Cons.prems StructV Cons have "indexItems (AList.update ident (deref x) m) xs = Some m'"
          by simp
        from Cons.IH [OF this Cons.prems(2)] show ?thesis
          by (auto dest: set_update_cases)
      qed (use Cons.prems Cons.IH StructV Cons in auto)
    qed
  qed (use Cons.prems in auto)
qed

lemma rsize_item:
  assumes "sliceElems actual = Some as" and "indexItems [] as = Some actualMap"
    and "map_of actualMap ident = Some actualItem"
  shows "rsize actualItem < rsize actual"
proof -
  from assms(3) have "(ident, actualItem) \<in> set actualMap" by (rule map_of_SomeD)
  with indexItems_mem [OF assms(2)] obtain x where x: "x \<in> set as" "actualItem = deref x"
    by auto
  have "rsize (deref x) \<le> rsize x" by (rule rsize_deref)
  also have "\<dots> < rsize actual" using rsize_elem [OF assms(1) x(1)] .
  finally show ?thesis using x by simp
qed

function compareStruct :: "Detector \<Rightarrow> mapiter \<Rightarrow> string \<Rightarrow> rvalue \<Rightarrow> rvalue \<Rightarrow> Drift list option"
  and compareSlices :: "Detector \<Rightarrow> mapiter \<Rightarrow> string \<Rightarrow> rvalue \<Rightarrow> rvalue \<Rightarrow> Drift list option"
  and compareStructSlices :: "Detector \<Rightarrow> mapiter \<Rightarrow> string \<Rightarrow> rvalue \<Rightarrow> rvalue \<Rightarrow> Drift list option"
where
  "compareStruct d ord prefix actual expected =
     (if \<not> IsValid actual \<and> \<not> IsValid expected then Some []
      else if \<not> IsValid actual then
        Some [fieldRemoved prefix expected]
      else if \<not> IsValid expected then
        Some [fieldAdded prefix actual]
      else
        (case deref actual of
           StructV fs \<Rightarrow>
             collect (map (\<lambda>f.
               if ignored d (fieldPath prefix (fst f)) then Some []
               else compareStruct d ord (fieldPath prefix (fst f)) (snd f)
                      (expectedField (deref expected) (fst f))) fs)
         | MapV m \<Rightarrow> compareMaps ord prefix (deref actual) (deref expected)
         | SGSliceV s \<Rightarrow> compareSlices d ord prefix (deref actual) (deref expected)
         | SliceV s \<Rightarrow> compareSlices d ord prefix (deref actual) (deref expected)
         | _ \<Rightarrow> Some (compareDefault prefix (deref actual) (deref expected))))"
| "compareSlices d ord prefix actual expected =
     (if prefix = ''SecurityGroups'' then compareSecurityGroups ord prefix actual expected
      else
        (case (Len actual, Len expected) of
           (Some la, Some le) \<Rightarrow>
             if la = 0 \<and> le = 0 then Some []
             else if la = 0 then
               Some [sliceRemoved prefix expected]
             else if le = 0 then
               Some [sliceAdded prefix actual]
             else
               (case sliceElems actual of
                  Some (first # rest) \<Rightarrow>
                    if Kind first = KStruct
                    then compareStructSlices d ord prefix actual expected
                    else Some (compareSimpleSlices prefix actual expected)
                | _ \<Rightarrow> None)
         | _ \<Rightarrow> None))"
| "compareStructSlices d ord prefix actual expected =
     (case sliceElems actual of
        None \<Rightarrow> None
      | Some as \<Rightarrow>
          (case indexItems [] as of
             None \<Rightarrow> None
           | Some actualMap \<Rightarrow>
               (case sliceElems expected of
                  None \<Rightarrow> None
                | Some es \<Rightarrow>
                    (case indexItems [] es of
                       None \<Rightarrow> None
                     | Some expectedMap \<Rightarrow>
                         (case collect (map (\<lambda>ident.
                                 case map_of expectedMap ident of
                                   None \<Rightarrow> Some []
                                 | Some expectedItem \<Rightarrow>
                                     (case map_of actualMap ident of
                                        Some actualItem \<Rightarrow>
                                          compareStruct d ord (keyPath prefix ident) actualItem expectedItem
                                      | None \<Rightarrow> Some [itemRemoved prefix ident expectedItem]))
                               (ord (map fst expectedMap))) of
                            None \<Rightarrow> None
                          | Some ds \<Rightarrow>
                              Some (ds @ concat (map (itemsActualLoop prefix actualMap expectedMap)
                                                  (ord (map fst actualMap)))))))))"
  by pat_completeness auto

termination
proof (relation "measure (\<lambda>x. case x of
          Inl (d, ord, p, a, e) \<Rightarrow> 3 * rsize a + 2
        | Inr (Inl (d, ord, p, a, e)) \<Rightarrow> 3 * rsize a + 1
        | Inr (Inr (d, ord, p, a, e)) \<Rightarrow> 3 * rsize a)", goal_cases)
  case 1
  show ?case by simp
next
  case (2 d ord prefix actual expected fs f)
  have "rsize (snd f) < rsize (deref actual)" using 2 rsize_field by metis
  also have "\<dots> \<le> rsize actual" by (rule rsize_deref)
  finally show ?case by simp
next
  case (3 d ord prefix actual expected s)
  show ?case using rsize_deref [of actual] by simp
next
  case (4 d ord prefix actual expected s)
  show ?case using rsize_deref [of actual] by simp
next
  case 5
  show ?case by simp
next
  case (6 d ord prefix actual expected as actualMap es expectedMap ident expectedItem actualItem)
  then show ?case using rsize_item by force
qed

declare compareStruct.simps [simp del] compareSlices.simps [simp del]
  compareStructSlices.simps [simp del]

subsection \<open>\<open>DetectDrift\<close>\<close>

definition nilDrift :: Drift where
  "nilDrift =
     \<lparr>Type = DriftTypeModified, Path = [], Actual = None, Expected = None,
      Description = Sprintf ''One of the configurations is nil'' []\<rparr>"

definition DetectDrift ::
  "Detector \<Rightarrow> mapiter \<Rightarrow> InstanceConfig option \<Rightarrow> InstanceConfig option \<Rightarrow> DriftReport option" where
  "DetectDrift d ord actual expected =
     (case (actual, expected) of
        (None, None) \<Rightarrow> Some \<lparr>InstanceID = [], HasDrift = False, Drifts = []\<rparr>
      | (Some a, None) \<Rightarrow>
          Some \<lparr>InstanceID = InstanceConfig.InstanceID a, HasDrift = True, Drifts = [nilDrift]\<rparr>
      | (None, Some e) \<Rightarrow>
          Some \<lparr>InstanceID = InstanceConfig.InstanceID e, HasDrift = True, Drifts = [nilDrift]\<rparr>
      | (Some a, Some e) \<Rightarrow>
          (case compareStruct d ord [] (valueOfInstanceConfig a) (valueOfInstanceConfig e) of
             None \<Rightarrow> None
           | Some ds \<Rightarrow>
               Some \<lparr>InstanceID = InstanceConfig.InstanceID a, HasDrift = (length ds > 0),
                     Drifts = ds\<rparr>))"

section \<open>Package domain/services: \<open>DriftDetector\<close> and \<open>DefaultDetectionService\<close>\<close>

record DriftDetector =
  ignoredFields :: "string \<rightharpoonup> bool"

definition NewDriftDetector :: DriftDetector where
  "NewDriftDetector = \<lparr>ignoredFields = Map.empty\<rparr>"

definition dd_ignored :: "DriftDetector \<Rightarrow> string \<Rightarrow> bool" where
  "dd_ignored d fieldName =
     (case DriftDetector.ignoredFields d fieldName of None \<Rightarrow> False | Some b \<Rightarrow> b)"

text \<open>\<open>strings.TrimPrefix(prefix, ".")\<close>.\<close>

definition TrimPrefixDot :: "string \<Rightarrow> string" where
  "TrimPrefixDot s = (case s of [] \<Rightarrow> [] | c # cs \<Rightarrow> if c = CHR ''.'' then cs else s)"

text \<open>The verb \<open>%d\<close> of \<open>fmt.Sprintf\<close> on a slice index.\<close>

definition digitChar :: "nat \<Rightarrow> char" where
  "digitChar n = ''0123456789'' ! (n mod 10)"

fun itoa :: "nat \<Rightarrow> string" where
  "itoa n = (if n < 10 then [digitChar n] else itoa (n div 10) @ [digitChar n])"

definition indexPath :: "string \<Rightarrow> nat \<Rightarrow> string" where
  "indexPath prefix i = prefix @ ''['' @ itoa i @ '']''"

subsection \<open>\<open>compareMaps\<close>\<close>

definition dd_mapActualLoop :: "string \<Rightarrow> (string \<times> string) list \<Rightarrow> (string \<times> string) list \<Rightarrow> string \<Rightarrow> Drift list" where
  "dd_mapActualLoop prefix actualMap expectedMap keyStr =
     (let actualValue = MapIndex actualMap keyStr; expectedValue = MapIndex expectedMap keyStr in
      if \<not> IsValid expectedValue then
        [NewDrift DriftTypeRemoved (prefix @ ''.'' @ keyStr) None None ''Field removed'']
      else if \<not> DeepEqual (safeInterface actualValue) (safeInterface expectedValue) then
        [NewDrift DriftTypeModified (prefix @ ''.'' @ keyStr)
           (safeInterface actualValue) (safeInterface expectedValue) ''Value modified'']
      else [])"

definition dd_mapExpectedLoop :: "string \<Rightarrow> (string \<times> string) list \<Rightarrow> (string \<times> string) list \<Rightarrow> string \<Rightarrow> Drift list" where
  "dd_mapExpectedLoop prefix actualMap expectedMap keyStr =
     (if \<not> IsValid (MapIndex actualMap keyStr) then
        [NewDrift DriftTypeAdded (prefix @ ''.'' @ keyStr)
           None (safeInterface (MapIndex expectedMap keyStr)) ''Field added'']
      else [])"

definition dd_compareMaps :: "mapiter \<Rightarrow> string \<Rightarrow> rvalue \<Rightarrow> rvalue \<Rightarrow> Drift list option" where
  "dd_compareMaps ord prefix actual expected =
     (case (mapEntries actual, mapEntries expected) of
        (Some actualMap, Some expectedMap) \<Rightarrow>
          Some (concat (map (dd_mapActualLoop prefix actualMap expectedMap)
                          (ord (map fst actualMap)))
                @ concat (map (dd_mapExpectedLoop prefix actualMap expectedMap)
                            (ord (map fst expectedMap))))
      | _ \<Rightarrow> None)"

subsection \<open>\<open>compareStruct\<close> and \<open>compareSlices\<close>\<close>

text \<open>
  \<open>Interface\<close> panics on the zero Value, \<open>expected.Field(i)\<close> panics when \<open>expected\<close> has
  fewer fields than \<open>actual\<close>. A pointer is not followed: it is compared by \<open>DeepEqual\<close>.
\<close>

function dd_compareStruct :: "DriftDetector \<Rightarrow> mapiter \<Rightarrow> string \<Rightarrow> rvalue \<Rightarrow> rvalue \<Rightarrow> Drift list option"
  and dd_compareSlices :: "DriftDetector \<Rightarrow> mapiter \<Rightarrow> string \<Rightarrow> rvalue \<Rightarrow> rvalue \<Rightarrow> Drift list option"
where
  "dd_compareStruct d ord prefix actual expected =
     (if Kind actual \<noteq> Kind expected then
        (if \<not> IsValid actual \<or> \<not> IsValid expected then None
         else Some [NewDrift DriftTypeModified prefix (Some actual) (Some expected) ''Type mismatch''])
      else
        (case actual of
           StructV fs \<Rightarrow>
             (case expected of
                StructV es \<Rightarrow>
                  collect (map (\<lambda>i.
                    if dd_ignored d (fst (fs ! i)) then Some []
                    else if i < length es
                      then dd_compareStruct d ord (prefix @ ''.'' @ fst (fs ! i)) (snd (fs ! i)) (snd (es ! i))
                      else None) [0..<length fs])
              | _ \<Rightarrow> None)
         | MapV m \<Rightarrow> dd_compareMaps ord prefix actual expected
         | SGSliceV s \<Rightarrow> dd_compareSlices d ord prefix actual expected
         | SliceV s \<Rightarrow> dd_compareSlices d ord prefix actual expected
         | Invalid \<Rightarrow> None
         | _ \<Rightarrow>
             (if \<not> DeepEqual (Some actual) (Some expected) then
                Some [NewDrift DriftTypeModified (TrimPrefixDot prefix) (Some actual) (Some expected)
                        ''Value mismatch'']
              else Some [])))"
| "dd_compareSlices d ord prefix actual expected =
     (case (sliceElems actual, sliceElems expected) of
        (Some as, Some es) \<Rightarrow>
          if length as \<noteq> length es then
            Some [NewDrift DriftTypeModified prefix (Some actual) (Some expected) ''Length mismatch'']
          else
            collect (map (\<lambda>i. dd_compareStruct d ord (indexPath prefix i) (as ! i) (es ! i))
                       [0..<length as])
      | _ \<Rightarrow> None)"
  by pat_completeness auto
termination
proof (relation "measure (\<lambda>x. case x of
          Inl (d, ord, p, a, e) \<Rightarrow> 2 * rsize a + 1
        | Inr (d, ord, p, a, e) \<Rightarrow> 2 * rsize a)", goal_cases)
  case 1
  show ?case by simp
next
  case (2 d ord prefix actual expected fs es i)
  then have "fs ! i \<in> set fs" by simp
  then have "rsize (snd (fs ! i)) < rsize (StructV fs)" by (rule rsize_field)
  with 2 show ?case by simp
next
  case 3
  show ?case by simp
next
  case 4
  show ?case by simp
next
  case (5 d ord prefix actual expected x y as es i)
  then have "as ! i \<in> set as" and "sliceElems actual = Some as" by simp_all
  then have "rsize (as ! i) < rsize actual" using rsize_elem by blast
  then show ?case by simp
qed

declare dd_compareStruct.simps [simp del] dd_compareSlices.simps [simp del]

definition CompareInstances :: "DriftDetector \<Rightarrow> mapiter \<Rightarrow> Instance \<Rightarrow> Instance \<Rightarrow> DriftReport option" where
  "CompareInstances d ord actual desired =
     (case dd_compareStruct d ord [] (valueOfInstance actual) (valueOfInstance desired) of
        None \<Rightarrow> None
      | Some ds \<Rightarrow> Some (foldl AddDrift (NewDriftReport (Instance.ID actual)) ds))"

subsection \<open>The detection service\<close>

record DefaultDetectionService =
  detector :: DriftDetector

definition NewDetectionService :: DefaultDetectionService where
  "NewDetectionService = \<lparr>detector = NewDriftDetector\<rparr>"

datatype DomainError = ErrInvalidInput | ErrInstanceMismatch

text \<open>
  A call returns \<open>(report, err)\<close>: \<open>Inl err\<close> stands for \<open>(nil, err)\<close> and
  \<open>Inr report\<close> for \<open>(report, nil)\<close>; \<open>None\<close> is a panic. A \<open>*models.Instance\<close> is an
  \<open>Instance option\<close>. The context argument is not used by the code.
\<close>

definition svc_DetectDrift ::
  "DefaultDetectionService \<Rightarrow> mapiter \<Rightarrow> Instance option \<Rightarrow> Instance option
     \<Rightarrow> (DomainError + DriftReport) option" where
  "svc_DetectDrift s ord actual desired =
     (case (actual, desired) of
        (Some a, Some e) \<Rightarrow>
          if Instance.ID a \<noteq> Instance.ID e then Some (Inl ErrInstanceMismatch)
          else (case CompareInstances (detector s) ord a e of
                  None \<Rightarrow> None
                | Some report \<Rightarrow> Some (Inr report))
      | _ \<Rightarrow> Some (Inl ErrInvalidInput))"

text \<open>The three loops of \<open>BatchDetectDrift\<close>. Reading \<open>inst.ID\<close> of a nil element panics.\<close>

fun indexDesired :: "(string \<rightharpoonup> Instance) \<Rightarrow> Instance option list \<Rightarrow> (string \<rightharpoonup> Instance) option" where
  "indexDesired desiredMap [] = Some desiredMap"
| "indexDesired desiredMap (inst # rest) =
     (case inst of
        None \<Rightarrow> None
      | Some i \<Rightarrow> indexDesired (desiredMap(Instance.ID i \<mapsto> i)) rest)"

definition onlyInActual :: "Instance \<Rightarrow> DriftReport" where
  "onlyInActual actualInst =
     AddDrift (NewDriftReport (Instance.ID actualInst))
       (NewDrift DriftTypeRemoved [] None None
          ''Instance exists in actual state but not in desired state'')"

definition onlyInDesired :: "Instance \<Rightarrow> DriftReport" where
  "onlyInDesired desiredInst =
     AddDrift (NewDriftReport (Instance.ID desiredInst))
       (NewDrift DriftTypeAdded [] None (Some (PtrV (Some (valueOfInstance desiredInst))))
          ''Instance exists in desired state but not in actual state'')"

fun compareActual ::
  "DefaultDetectionService \<Rightarrow> mapiter \<Rightarrow> (string \<rightharpoonup> Instance) \<Rightarrow> (string \<rightharpoonup> DriftReport)
     \<Rightarrow> Instance option list \<Rightarrow> (DomainError + (string \<rightharpoonup> DriftReport)) option" where
  "compareActual s ord desiredMap reports [] = Some (Inr reports)"
| "compareActual s ord desiredMap reports (actualInst # rest) =
     (case actualInst of
        None \<Rightarrow> None
      | Some a \<Rightarrow>
          (case desiredMap (Instance.ID a) of
             Some desiredInst \<Rightarrow>
               (case svc_DetectDrift s ord (Some a) (Some desiredInst) of
                  None \<Rightarrow> None
                | Some (Inl err) \<Rightarrow> Some (Inl err)
                | Some (Inr report) \<Rightarrow>
                    compareActual s ord desiredMap (reports(Instance.ID a \<mapsto> report)) rest)
           | None \<Rightarrow>
               compareActual s ord desiredMap (reports(Instance.ID a \<mapsto> onlyInActual a)) rest))"

fun addMissing :: "(string \<rightharpoonup> DriftReport) \<Rightarrow> Instance option list \<Rightarrow> (string \<rightharpoonup> DriftReport) option" where
  "addMissing reports [] = Some reports"
| "addMissing reports (desiredInst # rest) =
     (case desiredInst of
        None \<Rightarrow> None
      | Some e \<Rightarrow>
          (case reports (Instance.ID e) of
             Some r \<Rightarrow> addMissing reports rest
           | None \<Rightarrow> addMissing (reports(Instance.ID e \<mapsto> onlyInDesired e)) rest))"

definition BatchDetectDrift ::
  "DefaultDetectionService \<Rightarrow> mapiter \<Rightarrow> Instance option list \<Rightarrow> Instance option list
     \<Rightarrow> (DomainError + (string \<rightharpoonup> DriftReport)) option" where
  "BatchDetectDrift s ord actual desired =
     (case indexDesired Map.empty desired of
        None \<Rightarrow> None
      | Some desiredMap \<Rightarrow>
          (case compareActual s ord desiredMap Map.empty actual of
             None \<Rightarrow> None
           | Some (Inl err) \<Rightarrow> Some (Inl err)
           | Some (Inr reports) \<Rightarrow>
               (case addMissing reports desired of
                  None \<Rightarrow> None
                | Some reports' \<Rightarrow> Some (Inr reports'))))"

section \<open>Predicates for the properties\<close>

text \<open>The invariant that ties the kind of a drift to the values it carries.\<close>

definition driftOK :: "Drift \<Rightarrow> bool" where
  "driftOK x =
     (case Type x of
        DriftTypeAdded \<Rightarrow> Actual x \<noteq> None \<and> Expected x = None
      | DriftTypeRemoved \<Rightarrow> Expected x \<noteq> None \<and> Actual x = None
      | DriftTypeModified \<Rightarrow> Actual x \<noteq> Expected x)"

text \<open>What is shown of every field comparison: under two iteration orders it returns,
  every drift satisfies the invariant, and the drifts are the same up to their order.\<close>

definition fieldOK :: "Detector \<Rightarrow> mapiter \<Rightarrow> mapiter \<Rightarrow> string \<Rightarrow> rvalue \<Rightarrow> rvalue \<Rightarrow> bool" where
  "fieldOK d ord1 ord2 p av ev =
     (\<exists>a b. compareStruct d ord1 p av ev = Some a \<and> compareStruct d ord2 p av ev = Some b
        \<and> list_all driftOK a \<and> (rangeOrder ord1 \<and> rangeOrder ord2 \<longrightarrow> mset a = mset b))"

section \<open>Properties of the domain service\<close>

subsection \<open>Loops that do not panic\<close>

lemma collect_Some:
  "(\<And>x. x \<in> set xs \<Longrightarrow> F x = Some (G x)) \<Longrightarrow> collect (map F xs) = Some (concat (map G xs))"
  by (induction xs) auto

lemma collect_returns:
  "(\<And>x. x \<in> set xs \<Longrightarrow> \<exists>ds. F x = Some ds) \<Longrightarrow> \<exists>ds. collect (map F xs) = Some ds"
proof (induction xs)
  case Nil
  then show ?case by simp
next
  case (Cons x xs)
  from Cons.prems obtain ds where "F x = Some ds" by auto
  moreover from Cons obtain rest where "collect (map F xs) = Some rest" by auto
  ultimately show ?case by simp
qed

lemma map_upt_zip:
  "length fs = length es \<Longrightarrow>
   map (\<lambda>i. H (fs ! i) (es ! i)) [0..<length fs] = map (\<lambda>(f, e). H f e) (zip fs es)"
  by (rule nth_equalityI) auto

subsection \<open>The domain service never panics on two instances\<close>

lemma dd_struct_same_length:
  assumes "length fs = length es"
  shows "dd_compareStruct d ord p (StructV fs) (StructV es) =
     collect (map (\<lambda>(f, e). if dd_ignored d (fst f) then Some []
                     else dd_compareStruct d ord (p @ ''.'' @ fst f) (snd f) (snd e)) (zip fs es))"
proof -
  define H where "H = (\<lambda>(f :: string \<times> rvalue) (e :: string \<times> rvalue). if dd_ignored d (fst f) then Some []
                     else dd_compareStruct d ord (p @ ''.'' @ fst f) (snd f) (snd e))"
  have "dd_compareStruct d ord p (StructV fs) (StructV es) =
      collect (map (\<lambda>i. H (fs ! i) (es ! i)) [0..<length fs])"
    unfolding H_def using assms
    by (subst dd_compareStruct.simps) (auto intro!: arg_cong [where f = collect])
  also have "\<dots> = collect (map (\<lambda>(f, e). H f e) (zip fs es))"
    by (simp only: map_upt_zip [OF assms])
  finally show ?thesis unfolding H_def .
qed

lemma dd_struct_returns:
  assumes "list_all2 (\<lambda>f e. \<exists>ds. dd_compareStruct d ord (p @ ''.'' @ fst f) (snd f) (snd e) = Some ds) fs es"
  shows "\<exists>ds. dd_compareStruct d ord p (StructV fs) (StructV es) = Some ds"
proof -
  from assms have len: "length fs = length es" by (rule list_all2_lengthD)
  show ?thesis
    unfolding dd_struct_same_length [OF len]
  proof (rule collect_returns)
    fix x assume "x \<in> set (zip fs es)"
    with assms have "\<exists>ds. dd_compareStruct d ord (p @ ''.'' @ fst (fst x)) (snd (fst x)) (snd (snd x)) = Some ds"
      by (cases x) (auto simp: list_all2_iff)
    then show "\<exists>ds. (case x of (f, e) \<Rightarrow> if dd_ignored d (fst f) then Some []
                     else dd_compareStruct d ord (p @ ''.'' @ fst f) (snd f) (snd e)) = Some ds"
      by (cases x) auto
  qed
qed

lemma dd_scalar_returns:
  assumes "Kind a = Kind e" and "Kind a \<in> {KBool, KInt, KString, KPtr}"
  shows "\<exists>ds. dd_compareStruct d ord p a e = Some ds"
  using assms by (subst dd_compareStruct.simps) (cases a; auto)

lemma dd_map_returns: "\<exists>ds. dd_compareStruct d ord p (MapV a) (MapV e) = Some ds"
  by (subst dd_compareStruct.simps) (simp add: dd_compareMaps_def mapEntries_def)

lemma dd_sg_returns:
  "\<exists>ds. dd_compareStruct d ord p (valueOfSecurityGroup a) (valueOfSecurityGroup e) = Some ds"
  unfolding valueOfSecurityGroup_def
  by (rule dd_struct_returns) (simp add: dd_scalar_returns)

lemma dd_sgslice_returns: "\<exists>ds. dd_compareStruct d ord p (SGSliceV a) (SGSliceV e) = Some ds"
proof -
  have "\<exists>ds. dd_compareSlices d ord p (SGSliceV a) (SGSliceV e) = Some ds"
    by (subst dd_compareSlices.simps)
       (auto simp: sliceElems_def intro!: collect_returns dd_sg_returns split: option.splits)
  then show ?thesis by (subst dd_compareStruct.simps) simp
qed

lemma CompareInstances_returns: "\<exists>report. CompareInstances d ord a e = Some report"
proof -
  have "\<exists>ds. dd_compareStruct d ord [] (valueOfInstance a) (valueOfInstance e) = Some ds"
    unfolding valueOfInstance_def
    by (rule dd_struct_returns)
       (simp add: instanceFields_def ptrTo_def dd_scalar_returns dd_map_returns dd_sgslice_returns)
  then show ?thesis by (auto simp: CompareInstances_def)
qed

lemma indexDesired_Some:
  "\<exists>m'. indexDesired m (map Some es) = Some m'
        \<and> dom m' = dom m \<union> Instance.ID ` set es
        \<and> ((\<forall>k i. m k = Some i \<longrightarrow> Instance.ID i = k) \<longrightarrow> (\<forall>k i. m' k = Some i \<longrightarrow> Instance.ID i = k))"
proof (induction es arbitrary: m)
  case Nil
  then show ?case by simp
next
  case (Cons e es)
  from Cons [of "m(Instance.ID e \<mapsto> e)"] obtain m' where
    m': "indexDesired (m(Instance.ID e \<mapsto> e)) (map Some es) = Some m'"
        "dom m' = dom (m(Instance.ID e \<mapsto> e)) \<union> Instance.ID ` set es"
        "(\<forall>k i. (m(Instance.ID e \<mapsto> e)) k = Some i \<longrightarrow> Instance.ID i = k)
           \<longrightarrow> (\<forall>k i. m' k = Some i \<longrightarrow> Instance.ID i = k)"
    by blast
  show ?case
  proof (intro exI conjI)
    show "indexDesired m (map Some (e # es)) = Some m'" using m'(1) by simp
    show "dom m' = dom m \<union> Instance.ID ` set (e # es)" using m'(2) by auto
    show "(\<forall>k i. m k = Some i \<longrightarrow> Instance.ID i = k) \<longrightarrow> (\<forall>k i. m' k = Some i \<longrightarrow> Instance.ID i = k)"
    proof
      assume inv: "\<forall>k i. m k = Some i \<longrightarrow> Instance.ID i = k"
      have "\<forall>k i. (m(Instance.ID e \<mapsto> e)) k = Some i \<longrightarrow> Instance.ID i = k"
      proof (intro allI impI)
        fix k i assume "(m(Instance.ID e \<mapsto> e)) k = Some i"
        then show "Instance.ID i = k" using inv by (cases "k = Instance.ID e") simp_all
      qed
      with m'(3) show "\<forall>k i. m' k = Some i \<longrightarrow> Instance.ID i = k" by (rule mp)
    qed
  qed
qed

lemma svc_DetectDrift_same_id:
  "Instance.ID a = Instance.ID e \<Longrightarrow> \<exists>report. svc_DetectDrift s ord (Some a) (Some e) = Some (Inr report)"
  using CompareInstances_returns [of "detector s" ord a e] by (auto simp: svc_DetectDrift_def)

lemma compareActual_Some:
  assumes "\<forall>k i. dm k = Some i \<longrightarrow> Instance.ID i = k"
  shows "\<exists>reports'. compareActual s ord dm reports (map Some as) = Some (Inr reports')
          \<and> dom reports' = dom reports \<union> Instance.ID ` set as"
proof (induction as arbitrary: reports)
  case Nil
  then show ?case by simp
next
  case (Cons a as)
  show ?case
  proof (cases "dm (Instance.ID a)")
    case None
    obtain r' where r': "compareActual s ord dm (reports(Instance.ID a \<mapsto> onlyInActual a)) (map Some as) = Some (Inr r')"
        "dom r' = dom (reports(Instance.ID a \<mapsto> onlyInActual a)) \<union> Instance.ID ` set as"
      using Cons [of "reports(Instance.ID a \<mapsto> onlyInActual a)"] by blast
    have "compareActual s ord dm reports (map Some (a # as)) = Some (Inr r')"
      using None r'(1) by simp
    moreover have "dom r' = dom reports \<union> Instance.ID ` set (a # as)"
      unfolding r'(2) by simp
    ultimately show ?thesis by blast
  next
    case (Some desiredInst)
    with assms have "Instance.ID a = Instance.ID desiredInst" by auto
    then obtain report where r: "svc_DetectDrift s ord (Some a) (Some desiredInst) = Some (Inr report)"
      using svc_DetectDrift_same_id by blast
    obtain r' where r': "compareActual s ord dm (reports(Instance.ID a \<mapsto> report)) (map Some as) = Some (Inr r')"
        "dom r' = dom (reports(Instance.ID a \<mapsto> report)) \<union> Instance.ID ` set as"
      using Cons [of "reports(Instance.ID a \<mapsto> report)"] by blast
    have "compareActual s ord dm reports (map Some (a # as)) = Some (Inr r')"
      using Some r r'(1) by simp
    moreover have "dom r' = dom reports \<union> Instance.ID ` set (a # as)"
      unfolding r'(2) by simp
    ultimately show ?thesis by blast
  qed
qed

lemma addMissing_Some:
  "\<exists>reports'. addMissing reports (map Some es) = Some reports'
        \<and> dom reports' = dom reports \<union> Instance.ID ` set es"
proof (induction es arbitrary: reports)
  case Nil
  then show ?case by simp
next
  case (Cons e es)
  show ?case
  proof (cases "reports (Instance.ID e)")
    case None
    obtain r' where r': "addMissing (reports(Instance.ID e \<mapsto> onlyInDesired e)) (map Some es) = Some r'"
        "dom r' = dom (reports(Instance.ID e \<mapsto> onlyInDesired e)) \<union> Instance.ID ` set es"
      using Cons [of "reports(Instance.ID e \<mapsto> onlyInDesired e)"] by blast
    have "addMissing reports (map Some (e # es)) = Some r'"
      using None r'(1) by simp
    moreover have "dom r' = dom reports \<union> Instance.ID ` set (e # es)"
      unfolding r'(2) by simp
    ultimately show ?thesis by blast
  next
    case (Some r)
    obtain r' where r': "addMissing reports (map Some es) = Some r'"
        "dom r' = dom reports \<union> Instance.ID ` set es"
      using Cons [of reports] by blast
    have "addMissing reports (map Some (e # es)) = Some r'"
      using Some r'(1) by simp
    moreover have "dom r' = dom reports \<union> Instance.ID ` set (e # es)"
      unfolding r'(2) using Some by auto
    ultimately show ?thesis by blast
  qed
qed

text \<open>
  C2 (as the code has it). For every batch in which no instance pointer is nil,
  \<open>BatchDetectDrift\<close> returns a nil error and a mapping that holds a report for exactly
  the instance ids that occur in \<open>actual\<close> or in \<open>desired\<close>. The mapping has no
  per-resource error entries: its values are reports, and an error of one comparison would
  be returned as the error of the whole call.
\<close>

theorem BatchDetectDrift_entries:
  "\<exists>reports. BatchDetectDrift s ord (map Some actual) (map Some desired) = Some (Inr reports)
      \<and> dom reports = Instance.ID ` (set actual \<union> set desired)"
proof -
  obtain dm where dm: "indexDesired Map.empty (map Some desired) = Some dm"
      "\<forall>k i. dm k = Some i \<longrightarrow> Instance.ID i = k"
    using indexDesired_Some [of Map.empty desired] by auto
  obtain r1 where r1: "compareActual s ord dm Map.empty (map Some actual) = Some (Inr r1)"
      "dom r1 = Instance.ID ` set actual"
    using compareActual_Some [OF dm(2), of s ord Map.empty actual] by auto
  obtain r2 where r2: "addMissing r1 (map Some desired) = Some r2"
      "dom r2 = dom r1 \<union> Instance.ID ` set desired"
    using addMissing_Some [of r1 desired] by auto
  have "BatchDetectDrift s ord (map Some actual) (map Some desired) = Some (Inr r2)"
    using dm(1) r1(1) r2(1) by (simp add: BatchDetectDrift_def)
  moreover have "dom r2 = Instance.ID ` (set actual \<union> set desired)"
    using r1(2) r2(2) by auto
  ultimately show ?thesis by blast
qed

text \<open>
  C2 as stated fails: a batch whose second element is a nil pointer makes the whole call
  panic when it reads \<open>actualInst.ID\<close>, so no mapping is returned and the report of the
  first instance is lost with it.
\<close>

theorem BatchDetectDrift_nil_counterexample:
  "BatchDetectDrift NewDetectionService (\<lambda>ks. ks)
     [Some (NewInstance ''i-1'' ''t2.micro'' ''ami-1''), None] [] = None"
  by (simp add: BatchDetectDrift_def)

text \<open>
  C10. \<open>DefaultDetectionService.DetectDrift\<close> returns \<open>ErrInvalidInput\<close> and no report
  when the actual or the desired instance is nil, \<open>ErrInstanceMismatch\<close> and no report when
  the two ids differ, and in every other case a report with a nil error: the comparison
  itself neither fails nor panics.
\<close>

theorem svc_DetectDrift_results:
  "svc_DetectDrift s ord None desired = Some (Inl ErrInvalidInput)
   \<and> svc_DetectDrift s ord actual None = Some (Inl ErrInvalidInput)
   \<and> (Instance.ID a \<noteq> Instance.ID e \<longrightarrow>
        svc_DetectDrift s ord (Some a) (Some e) = Some (Inl ErrInstanceMismatch))
   \<and> (Instance.ID a = Instance.ID e \<longrightarrow>
        (\<exists>report. svc_DetectDrift s ord (Some a) (Some e) = Some (Inr report)))"
proof (intro conjI impI)
  show "svc_DetectDrift s ord None desired = Some (Inl ErrInvalidInput)"
    by (simp add: svc_DetectDrift_def)
  show "svc_DetectDrift s ord actual None = Some (Inl ErrInvalidInput)"
    by (cases actual) (simp_all add: svc_DetectDrift_def)
  show "svc_DetectDrift s ord (Some a) (Some e) = Some (Inl ErrInstanceMismatch)"
    if "Instance.ID a \<noteq> Instance.ID e"
    using that by (simp add: svc_DetectDrift_def)
  show "\<exists>report. svc_DetectDrift s ord (Some a) (Some e) = Some (Inr report)"
    if "Instance.ID a = Instance.ID e"
    using that by (rule svc_DetectDrift_same_id)
qed

text \<open>C10 at two concrete pairs of instances, one with different ids and one with equal ids.\<close>

theorem svc_DetectDrift_results_witness:
  "Instance.ID (NewInstance ''i-1'' ''t2.micro'' ''ami-1'') \<noteq> Instance.ID (NewInstance ''i-2'' ''t2.micro'' ''ami-1'')
   \<and> svc_DetectDrift NewDetectionService (\<lambda>ks. ks)
        (Some (NewInstance ''i-1'' ''t2.micro'' ''ami-1'')) (Some (NewInstance ''i-2'' ''t2.micro'' ''ami-1''))
       = Some (Inl ErrInstanceMismatch)
   \<and> Instance.ID (NewInstance ''i-1'' ''t2.micro'' ''ami-1'') = Instance.ID (NewInstance ''i-1'' ''t2.large'' ''ami-1'')
   \<and> (\<exists>report. svc_DetectDrift NewDetectionService (\<lambda>ks. ks)
        (Some (NewInstance ''i-1'' ''t2.micro'' ''ami-1'')) (Some (NewInstance ''i-1'' ''t2.large'' ''ami-1''))
       = Some (Inr report))"
  using svc_DetectDrift_results [of NewDetectionService "\<lambda>ks. ks" None None
          "NewInstance ''i-1'' ''t2.micro'' ''ami-1''" "NewInstance ''i-2'' ''t2.micro'' ''ami-1''"]
        svc_DetectDrift_results [of NewDetectionService "\<lambda>ks. ks" None None
          "NewInstance ''i-1'' ''t2.micro'' ''ami-1''" "NewInstance ''i-1'' ''t2.large'' ''ami-1''"]
  by (simp add: NewInstance_def)

section \<open>Properties of package detector\<close>

subsection \<open>Unfolding \<open>compareStruct\<close>\<close>


lemma collect_rel:
  assumes "list_all2 (\<lambda>x y. \<exists>a b. x = Some a \<and> y = Some b \<and> R a b) xs ys"
    and "R [] []" and "\<And>a b c d. R a b \<Longrightarrow> R c d \<Longrightarrow> R (a @ c) (b @ d)"
  shows "\<exists>a b. collect xs = Some a \<and> collect ys = Some b \<and> R a b"
  using assms(1)
proof (induction rule: list_all2_induct)
  case Nil
  then show ?case using assms(2) by simp
next
  case (Cons x xs y ys)
  then obtain a b a' b' where "x = Some a" "y = Some b" "R a b"
    "collect xs = Some a'" "collect ys = Some b'" "R a' b'" by blast
  then show ?case using assms(3) by simp
qed

lemma compareStruct_struct:
  "compareStruct d ord p (StructV fs) (StructV es) =
     collect (map (\<lambda>f. if ignored d (fieldPath p (fst f)) then Some []
                     else compareStruct d ord (fieldPath p (fst f)) (snd f)
                            (FieldByName (StructV es) (fst f))) fs)"
  by (subst compareStruct.simps) (simp add: IsValid_def deref_def expectedField_def cong: if_cong)

lemma FieldByName_nth:
  assumes "distinct (map fst es)" and "i < length es"
  shows "FieldByName (StructV es) (fst (es ! i)) = snd (es ! i)"
proof -
  have "(fst (es ! i), snd (es ! i)) \<in> set es" using assms(2) by simp
  with assms(1) have "map_of es (fst (es ! i)) = Some (snd (es ! i))" by (rule map_of_is_SomeI)
  then show ?thesis by (simp add: FieldByName_def)
qed

text \<open>Two structs of one type: a property of the field comparisons that is kept by
  appending holds of the comparison of the structs, and no field comparison panicking
  means that the comparison of the structs does not.\<close>

lemma compareStruct_fields:
  assumes names: "map fst es = map fst fs" "distinct (map fst fs)"
    and R: "R [] []" "\<And>a b c d. R a b \<Longrightarrow> R c d \<Longrightarrow> R (a @ c) (b @ d)"
    and fields: "list_all2 (\<lambda>f g. \<exists>a b. compareStruct d ord1 (fieldPath p (fst f)) (snd f) (snd g) = Some a
                   \<and> compareStruct d ord2 (fieldPath p (fst f)) (snd f) (snd g) = Some b \<and> R a b) fs es"
  shows "\<exists>a b. compareStruct d ord1 p (StructV fs) (StructV es) = Some a
            \<and> compareStruct d ord2 p (StructV fs) (StructV es) = Some b \<and> R a b"
proof -
  let ?F = "\<lambda>ord f. if ignored d (fieldPath p (fst f)) then Some []
                     else compareStruct d ord (fieldPath p (fst f)) (snd f)
                            (FieldByName (StructV es) (fst f))"
  have len: "length fs = length es" using names(1) by (metis length_map)
  have "\<exists>a b. ?F ord1 f = Some a \<and> ?F ord2 f = Some b \<and> R a b" if "f \<in> set fs" for f
  proof -
    from that obtain i where i: "i < length fs" "f = fs ! i" by (auto simp: in_set_conv_nth)
    have "fst (es ! i) = fst f" using names(1) i len by (metis nth_map)
    moreover have "distinct (map fst es)" using names by simp
    ultimately have fb: "FieldByName (StructV es) (fst f) = snd (es ! i)"
      using FieldByName_nth [of es i] i len by simp
    from fields i have "\<exists>a b. compareStruct d ord1 (fieldPath p (fst f)) (snd f) (snd (es ! i)) = Some a
        \<and> compareStruct d ord2 (fieldPath p (fst f)) (snd f) (snd (es ! i)) = Some b \<and> R a b"
      by (simp add: list_all2_conv_all_nth)
    with fb R(1) show ?thesis by auto
  qed
  then have "list_all2 (\<lambda>x y. \<exists>a b. x = Some a \<and> y = Some b \<and> R a b) (map (?F ord1) fs) (map (?F ord2) fs)"
    by (simp add: list_all2_map1 list_all2_map2 list_all2_same)
  from collect_rel [OF this R] show ?thesis
    by (simp only: compareStruct_struct)
qed

subsection \<open>Closed forms for the kinds of field that the model structs have\<close>

lemma compareStruct_leaf:
  assumes "IsValid av" and "Kind (deref av) \<in> {KInvalid, KBool, KInt, KString, KPtr}"
  shows "compareStruct d ord p av ev =
           Some (if IsValid ev then compareDefault p (deref av) (deref ev) else [fieldAdded p av])"
  using assms by (subst compareStruct.simps) (cases "deref av"; simp)

lemma compareStruct_flat:
  assumes "IsValid av" and "IsValid ev" and "deref av = StructV fs"
    and "\<forall>f\<in>set fs. IsValid (snd f) \<and> Kind (deref (snd f)) \<in> {KInvalid, KBool, KInt, KString, KPtr}"
  shows "compareStruct d ord p av ev =
           Some (concat (map (\<lambda>f. if ignored d (fieldPath p (fst f)) then []
                  else if IsValid (expectedField (deref ev) (fst f))
                       then compareDefault (fieldPath p (fst f)) (deref (snd f))
                              (deref (expectedField (deref ev) (fst f)))
                       else [fieldAdded (fieldPath p (fst f)) (snd f)]) fs))"
proof -
  have "compareStruct d ord p av ev =
      collect (map (\<lambda>f. if ignored d (fieldPath p (fst f)) then Some []
               else compareStruct d ord (fieldPath p (fst f)) (snd f)
                      (expectedField (deref ev) (fst f))) fs)"
    using assms(1-3) by (subst compareStruct.simps) simp
  also have "\<dots> = Some (concat (map (\<lambda>f. if ignored d (fieldPath p (fst f)) then []
                  else if IsValid (expectedField (deref ev) (fst f))
                       then compareDefault (fieldPath p (fst f)) (deref (snd f))
                              (deref (expectedField (deref ev) (fst f)))
                       else [fieldAdded (fieldPath p (fst f)) (snd f)]) fs))"
    using assms(4) by (intro collect_Some) (simp add: compareStruct_leaf)
  finally show ?thesis .
qed

lemma compareStruct_Tags:
  "compareStruct d ord ''Tags'' (MapV a) (MapV e) = compareMaps ord ''Tags'' (MapV a) (MapV e)"
  by (subst compareStruct.simps) (simp add: IsValid_def deref_def)

lemma compareStruct_SecurityGroups:
  "compareStruct d ord ''SecurityGroups'' (SGSliceV a) (SGSliceV e) =
     compareSecurityGroups ord ''SecurityGroups'' (SGSliceV a) (SGSliceV e)"
  by (subst compareStruct.simps) (simp add: IsValid_def deref_def compareSlices.simps)

lemma compareStruct_ptrSlice:
  assumes "p \<noteq> ''SecurityGroups''"
  shows "compareStruct d ord p (ptrSlice f a) (ptrSlice f e) =
     Some (if Len (ptrSlice f a) = Some 0 \<and> Len (ptrSlice f e) = Some 0 then []
           else if Len (ptrSlice f a) = Some 0 then [sliceRemoved p (ptrSlice f e)]
           else if Len (ptrSlice f e) = Some 0 then [sliceAdded p (ptrSlice f a)]
           else compareSimpleSlices p (ptrSlice f a) (ptrSlice f e))"
proof -
  have "compareStruct d ord p (ptrSlice f a) (ptrSlice f e) =
          compareSlices d ord p (ptrSlice f a) (ptrSlice f e)"
    by (subst compareStruct.simps) (simp add: IsValid_def deref_def ptrSlice_def)
  also have "\<dots> = Some (if Len (ptrSlice f a) = Some 0 \<and> Len (ptrSlice f e) = Some 0 then []
           else if Len (ptrSlice f a) = Some 0 then [sliceRemoved p (ptrSlice f e)]
           else if Len (ptrSlice f e) = Some 0 then [sliceAdded p (ptrSlice f a)]
           else compareSimpleSlices p (ptrSlice f a) (ptrSlice f e))"
    using assms
    by (subst compareSlices.simps)
       (auto simp: ptrSlice_def Len_def sliceElems_def ptrTo_def split: option.splits list.splits)
  finally show ?thesis .
qed

lemma mset_concat_map_perm:
  assumes "mset xs = mset ys"
  shows "mset (concat (map f xs)) = mset (concat (map f ys))"
proof -
  have "mset (concat (map f zs)) = sum_mset (image_mset (\<lambda>z. mset (f z)) (mset zs))" for zs
    by (induction zs) simp_all
  then show ?thesis using assms by simp
qed

lemma rangeOrder_concat:
  "rangeOrder ord1 \<Longrightarrow> rangeOrder ord2 \<Longrightarrow>
   mset (concat (map f (ord1 ks))) = mset (concat (map f (ord2 ks)))"
  by (rule mset_concat_map_perm) (simp add: rangeOrder_def)

lemma driftOK_compareDefault: "list_all driftOK (compareDefault p a e)"
  by (simp add: compareDefault_def driftOK_def DeepEqual_def Let_def)

lemma driftOK_fieldAdded: "IsValid av \<Longrightarrow> driftOK (fieldAdded p av)"
  by (simp add: fieldAdded_def driftOK_def safeInterface_def)

lemma leaf_fieldOK:
  assumes "IsValid av" and "Kind (deref av) \<in> {KInvalid, KBool, KInt, KString, KPtr}"
  shows "fieldOK d ord1 ord2 p av ev"
  using assms by (simp add: fieldOK_def compareStruct_leaf driftOK_compareDefault driftOK_fieldAdded)

lemma flat_fieldOK:
  assumes "IsValid av" and "IsValid ev" and "deref av = StructV fs"
    and "\<forall>f\<in>set fs. IsValid (snd f) \<and> Kind (deref (snd f)) \<in> {KInvalid, KBool, KInt, KString, KPtr}"
  shows "fieldOK d ord1 ord2 p av ev"
  unfolding fieldOK_def compareStruct_flat [OF assms]
  using assms(4)
  by (auto simp: list_all_iff driftOK_fieldAdded
           dest: driftOK_compareDefault [unfolded list_all_iff, rule_format, rotated])

lemma ptrTo_fieldOK:
  assumes "\<And>x. \<exists>fs. f x = StructV fs \<and>
             (\<forall>g\<in>set fs. IsValid (snd g) \<and> Kind (deref (snd g)) \<in> {KInvalid, KBool, KInt, KString, KPtr})"
  shows "fieldOK d ord1 ord2 p (ptrTo f a) (ptrTo f e)"
proof (cases a)
  case None
  then show ?thesis by (intro leaf_fieldOK) (simp_all add: ptrTo_def IsValid_def deref_def)
next
  case (Some x)
  from assms [of x] obtain fs where fs: "f x = StructV fs"
    "\<forall>g\<in>set fs. IsValid (snd g) \<and> Kind (deref (snd g)) \<in> {KInvalid, KBool, KInt, KString, KPtr}"
    by blast
  show ?thesis
    by (rule flat_fieldOK [where fs = fs]) (use Some fs in \<open>simp_all add: ptrTo_def IsValid_def deref_def\<close>)
qed

lemma two_loops:
  assumes "\<And>k. list_all driftOK (f k)" and "\<And>k. list_all driftOK (g k)"
  shows "list_all driftOK (concat (map f (ord1 ks)) @ concat (map g (ord1 ks')))
       \<and> (rangeOrder ord1 \<and> rangeOrder ord2 \<longrightarrow>
            mset (concat (map f (ord1 ks)) @ concat (map g (ord1 ks')))
          = mset (concat (map f (ord2 ks)) @ concat (map g (ord2 ks'))))"
proof (intro conjI impI)
  show "list_all driftOK (concat (map f (ord1 ks)) @ concat (map g (ord1 ks')))"
    using assms by (auto simp: list_all_iff)
  assume "rangeOrder ord1 \<and> rangeOrder ord2"
  then show "mset (concat (map f (ord1 ks)) @ concat (map g (ord1 ks')))
          = mset (concat (map f (ord2 ks)) @ concat (map g (ord2 ks')))"
    using rangeOrder_concat [of ord1 ord2 f ks] rangeOrder_concat [of ord1 ord2 g ks'] by simp
qed

lemma Tags_fieldOK: "fieldOK d ord1 ord2 ''Tags'' (MapV a) (MapV e)"
proof -
  have ok: "list_all driftOK (tagsExpectedLoop p x y k)" "list_all driftOK (tagsActualLoop p x y k)"
    for p x y k
    by (auto simp: tagsExpectedLoop_def tagsActualLoop_def driftOK_def split: option.splits)
  have "compareMaps ord ''Tags'' (MapV a) (MapV e) =
      Some (concat (map (tagsExpectedLoop ''Tags'' (case a of None \<Rightarrow> [] | Some al \<Rightarrow> al)
                           (case e of None \<Rightarrow> [] | Some al \<Rightarrow> al))
                      (ord (map fst (case e of None \<Rightarrow> [] | Some al \<Rightarrow> al))))
            @ concat (map (tagsActualLoop ''Tags'' (case a of None \<Rightarrow> [] | Some al \<Rightarrow> al)
                             (case e of None \<Rightarrow> [] | Some al \<Rightarrow> al))
                        (ord (map fst (case a of None \<Rightarrow> [] | Some al \<Rightarrow> al)))))" for ord
    by (simp add: compareMaps_def IsValid_def assertMap_def mapEntries_def)
  then show ?thesis
    unfolding fieldOK_def compareStruct_Tags using two_loops [OF ok] by simp
qed

lemma SecurityGroups_fieldOK: "fieldOK d ord1 ord2 ''SecurityGroups'' (SGSliceV a) (SGSliceV e)"
proof -
  have ok: "list_all driftOK (sgExpectedLoop p x y k)" "list_all driftOK (sgActualLoop p x y k)"
    for p x y k
    by (auto simp: sgExpectedLoop_def sgActualLoop_def driftOK_def valueOfSecurityGroup_def
             split: option.splits)
  have "compareSecurityGroups ord ''SecurityGroups'' (SGSliceV a) (SGSliceV e) =
      Some (concat (map (sgExpectedLoop ''SecurityGroups''
                           (sgIndex (case a of None \<Rightarrow> [] | Some xs \<Rightarrow> xs))
                           (sgIndex (case e of None \<Rightarrow> [] | Some xs \<Rightarrow> xs)))
                      (ord (map fst (sgIndex (case e of None \<Rightarrow> [] | Some xs \<Rightarrow> xs)))))
            @ concat (map (sgActualLoop ''SecurityGroups''
                             (sgIndex (case a of None \<Rightarrow> [] | Some xs \<Rightarrow> xs))
                             (sgIndex (case e of None \<Rightarrow> [] | Some xs \<Rightarrow> xs)))
                        (ord (map fst (sgIndex (case a of None \<Rightarrow> [] | Some xs \<Rightarrow> xs))))))" for ord
    by (simp add: compareSecurityGroups_def IsValid_def assertSGs_def Let_def split: option.splits)
  then show ?thesis
    unfolding fieldOK_def compareStruct_SecurityGroups using two_loops [OF ok] by simp
qed

lemma ptrSlice_fieldOK:
  assumes "p \<noteq> ''SecurityGroups''"
  shows "fieldOK d ord1 ord2 p (ptrSlice f a) (ptrSlice f e)"
  unfolding fieldOK_def compareStruct_ptrSlice [OF assms]
  by (auto simp: driftOK_def sliceRemoved_def sliceAdded_def compareSimpleSlices_def
        safeInterface_def IsValid_def ptrSlice_def DeepEqual_def)

lemma ptr_scalar_fieldOK:
  assumes "\<And>x. Kind (f x) \<in> {KBool, KInt, KString}"
  shows "fieldOK d ord1 ord2 p (ptrTo f a) ev"
proof (rule leaf_fieldOK)
  show "IsValid (ptrTo f a)" by (simp add: ptrTo_def IsValid_def)
  show "Kind (deref (ptrTo f a)) \<in> {KInvalid, KBool, KInt, KString, KPtr}"
    using assms by (cases a) (auto simp: ptrTo_def deref_def)
qed

lemma scalar_fieldOK:
  "fieldOK d ord1 ord2 p (StringV s) ev" "fieldOK d ord1 ord2 p (IntV i) ev"
  "fieldOK d ord1 ord2 p (BoolV b) ev"
  by (rule leaf_fieldOK; simp add: IsValid_def deref_def)+

lemmas struct_values = valueOfCreditSpecification_def valueOfHibernationOptions_def
  valueOfEnclaveOptions_def valueOfMetadataOptions_def valueOfLaunchTemplateSpecification_def
  valueOfTimeouts_def

lemma struct_ptr_fieldOK:
  "fieldOK d ord1 ord2 p (ptrTo valueOfCreditSpecification a1) (ptrTo valueOfCreditSpecification e1)"
  "fieldOK d ord1 ord2 p (ptrTo valueOfHibernationOptions a2) (ptrTo valueOfHibernationOptions e2)"
  "fieldOK d ord1 ord2 p (ptrTo valueOfEnclaveOptions a3) (ptrTo valueOfEnclaveOptions e3)"
  "fieldOK d ord1 ord2 p (ptrTo valueOfMetadataOptions a4) (ptrTo valueOfMetadataOptions e4)"
  "fieldOK d ord1 ord2 p (ptrTo valueOfLaunchTemplateSpecification a5) (ptrTo valueOfLaunchTemplateSpecification e5)"
  "fieldOK d ord1 ord2 p (ptrTo valueOfTimeouts a6) (ptrTo valueOfTimeouts e6)"
  by (rule ptrTo_fieldOK; simp add: struct_values IsValid_def deref_def ptrTo_def split: option.splits)+

lemma config_names: "map fst (configFields e) = map fst (configFields a)"
  by (simp add: configFields_def)

lemma config_distinct: "distinct (map fst (configFields a))"
  by (simp add: configFields_def)

lemma config_fieldOK:
  "fieldOK d ord1 ord2 [] (valueOfInstanceConfig x) (valueOfInstanceConfig y)"
proof -
  let ?R = "\<lambda>a b. list_all driftOK a \<and> (rangeOrder ord1 \<and> rangeOrder ord2 \<longrightarrow> mset a = mset b)"
  have "list_all2 (\<lambda>f g. fieldOK d ord1 ord2 (fieldPath [] (fst f)) (snd f) (snd g))
          (configFields x) (configFields y)"
    by (simp add: configFields_def fieldPath_def scalar_fieldOK ptr_scalar_fieldOK
          struct_ptr_fieldOK Tags_fieldOK SecurityGroups_fieldOK ptrSlice_fieldOK)
  then have "list_all2 (\<lambda>f g. \<exists>a b. compareStruct d ord1 (fieldPath [] (fst f)) (snd f) (snd g) = Some a
                   \<and> compareStruct d ord2 (fieldPath [] (fst f)) (snd f) (snd g) = Some b \<and> ?R a b)
          (configFields x) (configFields y)"
    by (simp add: fieldOK_def)
  from compareStruct_fields [where R = ?R, OF config_names config_distinct _ _ this]
  show ?thesis by (simp add: fieldOK_def valueOfInstanceConfig_def)
qed

subsection \<open>Comparisons that find nothing\<close>

lemma tags_loops_same:
  assumes "map_of x = map_of y"
  shows "tagsExpectedLoop p x y k = []" and "tagsActualLoop p x y k = []"
  using assms by (auto simp: tagsExpectedLoop_def tagsActualLoop_def split: option.splits)

lemma sg_loops_same:
  assumes "map_of x = map_of y"
  shows "sgExpectedLoop p x y k = []" and "sgActualLoop p x y k = []"
  using assms by (auto simp: sgExpectedLoop_def sgActualLoop_def split: option.splits)

lemma compareMaps_Tags_same:
  assumes "map_of (case a of None \<Rightarrow> [] | Some al \<Rightarrow> al) = map_of (case e of None \<Rightarrow> [] | Some al \<Rightarrow> al)"
  shows "compareMaps ord ''Tags'' (MapV a) (MapV e) = Some []"
  using assms
  by (simp add: compareMaps_def IsValid_def assertMap_def mapEntries_def tags_loops_same)

lemma compareSecurityGroups_same:
  assumes "map_of (sgIndex (case a of None \<Rightarrow> [] | Some xs \<Rightarrow> xs))
         = map_of (sgIndex (case e of None \<Rightarrow> [] | Some xs \<Rightarrow> xs))"
  shows "compareSecurityGroups ord p (SGSliceV a) (SGSliceV e) = Some []"
  using assms
  by (simp add: compareSecurityGroups_def IsValid_def assertSGs_def Let_def sg_loops_same
        split: option.splits)





lemma compareDefault_same: "compareDefault p v v = []"
  by (simp add: compareDefault_def DeepEqual_def)

lemma leaf_noDrift:
  assumes "IsValid av" and "Kind (deref av) \<in> {KInvalid, KBool, KInt, KString, KPtr}"
  shows "compareStruct d ord p av av = Some []"
  using assms by (simp add: compareStruct_leaf compareDefault_same)

lemma expectedField_same:
  assumes "distinct (map fst fs)" and "f \<in> set fs"
  shows "expectedField (StructV fs) (fst f) = snd f"
proof -
  from assms(2) obtain i where "i < length fs" "f = fs ! i" by (auto simp: in_set_conv_nth)
  with FieldByName_nth [OF assms(1), of i] show ?thesis
    by (simp add: expectedField_def IsValid_def)
qed

lemma flat_noDrift:
  assumes "IsValid av" and "deref av = StructV fs" and "distinct (map fst fs)"
    and "\<forall>f\<in>set fs. IsValid (snd f) \<and> Kind (deref (snd f)) \<in> {KInvalid, KBool, KInt, KString, KPtr}"
  shows "compareStruct d ord p av av = Some []"
  unfolding compareStruct_flat [OF assms(1) assms(1) assms(2) assms(4)]
  using assms(2-4) by (auto simp: expectedField_same compareDefault_same)

lemma ptrTo_noDrift:
  assumes "\<And>x. \<exists>fs. f x = StructV fs \<and> distinct (map fst fs) \<and>
             (\<forall>g\<in>set fs. IsValid (snd g) \<and> Kind (deref (snd g)) \<in> {KInvalid, KBool, KInt, KString, KPtr})"
  shows "compareStruct d ord p (ptrTo f a) (ptrTo f a) = Some []"
proof (cases a)
  case None
  then show ?thesis by (intro leaf_noDrift) (simp_all add: ptrTo_def IsValid_def deref_def)
next
  case (Some x)
  from assms [of x] obtain fs where fs: "f x = StructV fs" "distinct (map fst fs)"
    "\<forall>g\<in>set fs. IsValid (snd g) \<and> Kind (deref (snd g)) \<in> {KInvalid, KBool, KInt, KString, KPtr}"
    by blast
  show ?thesis
    by (rule flat_noDrift [where fs = fs]) (use Some fs in \<open>simp_all add: ptrTo_def IsValid_def deref_def\<close>)
qed

lemma ptr_scalar_noDrift:
  assumes "\<And>x. Kind (f x) \<in> {KBool, KInt, KString}"
  shows "compareStruct d ord p (ptrTo f a) (ptrTo f a) = Some []"
proof (rule leaf_noDrift)
  show "IsValid (ptrTo f a)" by (simp add: ptrTo_def IsValid_def)
  show "Kind (deref (ptrTo f a)) \<in> {KInvalid, KBool, KInt, KString, KPtr}"
    using assms by (cases a) (auto simp: ptrTo_def deref_def)
qed

lemma scalar_noDrift:
  "compareStruct d ord p (StringV s) (StringV s) = Some []"
  "compareStruct d ord p (IntV i) (IntV i) = Some []"
  by (rule leaf_noDrift; simp add: IsValid_def deref_def)+

lemma struct_ptr_noDrift:
  "compareStruct d ord p (ptrTo valueOfCreditSpecification a1) (ptrTo valueOfCreditSpecification a1) = Some []"
  "compareStruct d ord p (ptrTo valueOfHibernationOptions a2) (ptrTo valueOfHibernationOptions a2) = Some []"
  "compareStruct d ord p (ptrTo valueOfEnclaveOptions a3) (ptrTo valueOfEnclaveOptions a3) = Some []"
  "compareStruct d ord p (ptrTo valueOfMetadataOptions a4) (ptrTo valueOfMetadataOptions a4) = Some []"
  "compareStruct d ord p (ptrTo valueOfLaunchTemplateSpecification a5) (ptrTo valueOfLaunchTemplateSpecification a5) = Some []"
  "compareStruct d ord p (ptrTo valueOfTimeouts a6) (ptrTo valueOfTimeouts a6) = Some []"
  by (rule ptrTo_noDrift; simp add: struct_values IsValid_def deref_def ptrTo_def split: option.splits)+

lemma ptrSlice_noDrift:
  assumes "p \<noteq> ''SecurityGroups''"
  shows "compareStruct d ord p (ptrSlice f a) (ptrSlice f a) = Some []"
  unfolding compareStruct_ptrSlice [OF assms]
  by (simp add: compareSimpleSlices_def DeepEqual_def Len_def ptrSlice_def split: option.splits)

lemma config_noDrift:
  assumes "list_all2 (\<lambda>f g. compareStruct d ord (fst f) (snd f) (snd g) = Some [])
             (configFields x) (configFields y)"
  shows "compareStruct d ord [] (valueOfInstanceConfig x) (valueOfInstanceConfig y) = Some []"
proof -
  let ?R = "\<lambda>a b :: Drift list. a = []"
  from assms have "list_all2 (\<lambda>f g. \<exists>a b. compareStruct d ord (fieldPath [] (fst f)) (snd f) (snd g) = Some a
                   \<and> compareStruct d ord (fieldPath [] (fst f)) (snd f) (snd g) = Some b \<and> ?R a b)
          (configFields x) (configFields y)"
    by (auto simp: fieldPath_def elim!: list_all2_mono)
  from compareStruct_fields [where R = ?R, OF config_names config_distinct _ _ this]
  show ?thesis by (simp add: valueOfInstanceConfig_def)
qed

lemma compareStruct_same_config:
  "compareStruct d ord [] (valueOfInstanceConfig c) (valueOfInstanceConfig c) = Some []"
  by (rule config_noDrift)
     (simp add: configFields_def scalar_noDrift ptr_scalar_noDrift struct_ptr_noDrift
        ptrSlice_noDrift compareStruct_Tags compareMaps_Tags_same
        compareStruct_SecurityGroups compareSecurityGroups_same)

text \<open>
  C7. Comparing a configuration with itself finds nothing: for every configuration, every
  set of ignored fields and every iteration order \<open>DetectDrift\<close> returns a report without
  drifts and with \<open>HasDrift\<close> false, and so it does for two nil configurations.
\<close>

theorem DetectDrift_reflexive:
  "DetectDrift d ord (Some c) (Some c) =
     Some \<lparr>InstanceID = InstanceConfig.InstanceID c, HasDrift = False, Drifts = []\<rparr>
   \<and> DetectDrift d ord None None = Some \<lparr>InstanceID = [], HasDrift = False, Drifts = []\<rparr>"
  by (simp add: DetectDrift_def compareStruct_same_config)




text \<open>
  C4 (as the code has it). When exactly one of the two configurations is nil,
  \<open>DetectDrift\<close> returns a report with exactly one drift. Its kind is Modified whichever
  side is present (never Added or Removed), its path is the empty root path, and neither
  the present configuration nor anything else is attached: \<open>Actual\<close> and
  \<open>Expected\<close> are both nil. The report carries the instance id of the present side and
  has \<open>HasDrift\<close> set.
\<close>

theorem DetectDrift_one_nil:
  "DetectDrift d ord (Some a) None =
     Some \<lparr>InstanceID = InstanceConfig.InstanceID a, HasDrift = True,
           Drifts = [\<lparr>Type = DriftTypeModified, Path = [], Actual = None, Expected = None,
                      Description = Sprintf ''One of the configurations is nil'' []\<rparr>]\<rparr>
   \<and> DetectDrift d ord None (Some e) =
     Some \<lparr>InstanceID = InstanceConfig.InstanceID e, HasDrift = True,
           Drifts = [\<lparr>Type = DriftTypeModified, Path = [], Actual = None, Expected = None,
                      Description = Sprintf ''One of the configurations is nil'' []\<rparr>]\<rparr>"
  by (simp add: DetectDrift_def nilDrift_def)

text \<open>
  C4 as stated fails: with the observed configuration present and the declared one nil the
  single drift is Modified, not Added, and the observed configuration is not attached.
\<close>

theorem DetectDrift_one_nil_counterexample:
  "map Type (Drifts (the (DetectDrift NewDetector (\<lambda>ks. ks)
       (Some (zeroInstanceConfig\<lparr>InstanceConfig.InstanceID := ''i-1''\<rparr>)) None)))
     = [DriftTypeModified]
   \<and> map Actual (Drifts (the (DetectDrift NewDetector (\<lambda>ks. ks)
       (Some (zeroInstanceConfig\<lparr>InstanceConfig.InstanceID := ''i-1''\<rparr>)) None)))
     = [None]"
  by (simp add: DetectDrift_def nilDrift_def)

subsection \<open>Reports and the kinds of their drifts\<close>

lemma foldl_AddDrift:
  "Drifts (foldl AddDrift r ds) = Drifts r @ ds
   \<and> HasDrift (foldl AddDrift r ds) = (HasDrift r \<or> ds \<noteq> [])
   \<and> InstanceID (foldl AddDrift r ds) = InstanceID r"
  by (induction ds arbitrary: r) (auto simp: AddDrift_def)

lemma DetectDrift_fieldOK:
  "\<exists>a b. DetectDrift d ordA (Some x) (Some y) =
            Some \<lparr>InstanceID = InstanceConfig.InstanceID x, HasDrift = (length a > 0), Drifts = a\<rparr>
        \<and> DetectDrift d ordB (Some x) (Some y) =
            Some \<lparr>InstanceID = InstanceConfig.InstanceID x, HasDrift = (length b > 0), Drifts = b\<rparr>
        \<and> list_all driftOK a \<and> (rangeOrder ordA \<and> rangeOrder ordB \<longrightarrow> mset a = mset b)"
  using config_fieldOK [of d ordA ordB x y] by (auto simp: fieldOK_def DetectDrift_def)

text \<open>
  C8. \<open>HasDrift\<close> is true exactly when the report holds a drift: for the empty report of
  \<open>NewDriftReport\<close>, after every \<open>AddDrift\<close>, for the report that \<open>Detector.DetectDrift\<close>
  returns (it returns one for every pair of configurations, nil or not) and for the report
  that \<open>CompareInstances\<close> assembles with \<open>AddDrift\<close>.
\<close>

theorem HasDrift_invariant:
  "HasDrift (NewDriftReport instanceID) = (length (Drifts (NewDriftReport instanceID)) > 0)
   \<and> HasDrift (AddDrift r drift) = (length (Drifts (AddDrift r drift)) > 0)
   \<and> (\<exists>report. DetectDrift d ord actual expected = Some report
         \<and> HasDrift report = (length (Drifts report) > 0))
   \<and> (\<exists>report. CompareInstances dd ord a e = Some report
         \<and> HasDrift report = (length (Drifts report) > 0))"
proof (intro conjI)
  show "HasDrift (NewDriftReport instanceID) = (length (Drifts (NewDriftReport instanceID)) > 0)"
    by (simp add: NewDriftReport_def)
  show "HasDrift (AddDrift r drift) = (length (Drifts (AddDrift r drift)) > 0)"
    by (simp add: AddDrift_def)
  show "\<exists>report. DetectDrift d ord actual expected = Some report
         \<and> HasDrift report = (length (Drifts report) > 0)"
  proof (cases actual)
    case None
    then show ?thesis by (cases expected) (simp_all add: DetectDrift_def)
  next
    case a: (Some x)
    show ?thesis
    proof (cases expected)
      case None
      with a show ?thesis by (simp add: DetectDrift_def)
    next
      case (Some y)
      with a DetectDrift_fieldOK [where d = d and ordA = ord and ordB = ord and x = x and y = y] show ?thesis by auto
    qed
  qed
  show "\<exists>report. CompareInstances dd ord a e = Some report
         \<and> HasDrift report = (length (Drifts report) > 0)"
    using CompareInstances_returns [of dd ord a e]
    by (auto simp: CompareInstances_def foldl_AddDrift NewDriftReport_def split: option.splits)
qed




subsection \<open>The order of the drifts\<close>




subsection \<open>A struct behind a pointer that is nil on the declared side\<close>

lemma compareStruct_Invalid:
  "compareStruct d ord p av Invalid = Some (if IsValid av then [fieldAdded p av] else [])"
  by (subst compareStruct.simps) (simp add: IsValid_def)

lemma concat_map_filter:
  "concat (map (\<lambda>x. if P x then [g x] else []) xs) = map g (filter P xs)"
  by (induction xs) simp_all

text \<open>
  C3 (as the code has it). When a pointer to a struct is non-nil on the observed side and nil
  on the declared side, \<open>compareStruct\<close> emits no drift at the path of the field itself: it
  emits one Added drift for every field of the struct that is not ignored, at the path
  \<open>field.subfield\<close> beneath it, carrying the observed value of that field, and goes no
  deeper. Only when the declared side is missing altogether (the zero Value) is there one
  Added drift at the path of the field itself.
\<close>

theorem nil_declared_struct_fields:
  "compareStruct d ord p (PtrV (Some (StructV fs))) (PtrV None) =
     Some (map (\<lambda>f. fieldAdded (fieldPath p (fst f)) (snd f))
             (filter (\<lambda>f. \<not> ignored d (fieldPath p (fst f)) \<and> IsValid (snd f)) fs))
   \<and> compareStruct d ord p (PtrV (Some (StructV fs))) Invalid =
       Some [fieldAdded p (PtrV (Some (StructV fs)))]"
proof
  have "compareStruct d ord p (PtrV (Some (StructV fs))) (PtrV None) =
      collect (map (\<lambda>f. if ignored d (fieldPath p (fst f)) then Some []
               else compareStruct d ord (fieldPath p (fst f)) (snd f) Invalid) fs)"
    by (subst compareStruct.simps) (simp add: IsValid_def deref_def expectedField_def cong: if_cong)
  also have "\<dots> = Some (concat (map (\<lambda>f. if \<not> ignored d (fieldPath p (fst f)) \<and> IsValid (snd f)
                 then [fieldAdded (fieldPath p (fst f)) (snd f)] else []) fs))"
    by (intro collect_Some) (simp add: compareStruct_Invalid)
  finally show "compareStruct d ord p (PtrV (Some (StructV fs))) (PtrV None) =
     Some (map (\<lambda>f. fieldAdded (fieldPath p (fst f)) (snd f))
             (filter (\<lambda>f. \<not> ignored d (fieldPath p (fst f)) \<and> IsValid (snd f)) fs))"
    by (simp only: concat_map_filter)
  show "compareStruct d ord p (PtrV (Some (StructV fs))) Invalid =
       Some [fieldAdded p (PtrV (Some (StructV fs)))]"
    by (simp add: compareStruct_Invalid IsValid_def)
qed

text \<open>
  C3 as stated fails: with \<open>CreditSpecification\<close> set on the observed side and nil on the
  declared side, the only drift is at \<open>CreditSpecification.CPUCredits\<close>, beneath the path
  of the field, and none is at \<open>CreditSpecification\<close>.
\<close>

theorem nil_declared_struct_counterexample:
  "map (\<lambda>x. (Type x, Path x)) (Drifts (the (DetectDrift NewDetector (\<lambda>ks. ks)
      (Some (zeroInstanceConfig\<lparr>CreditSpecification := Some \<lparr>CPUCredits = ''standard''\<rparr>\<rparr>))
      (Some zeroInstanceConfig)))) = [(DriftTypeAdded, ''CreditSpecification.CPUCredits'')]"
  by code_simp

subsection \<open>Slices of different lengths\<close>




end
